theory Spec2Isabelle
  imports Complex_Main
begin

section \<open>Python values that cross the persistence boundary\<close>

text \<open>
  The documents read by \<^verbatim>\<open>json.load\<close> and the dictionaries built by every
  \<^verbatim>\<open>to_dict\<close>. A Python \<^verbatim>\<open>dict\<close> is an association list in insertion order;
  a tuple is written as a list, which is what \<^verbatim>\<open>json.dump\<close> emits for it. A Python
  float is a real number here: rounding is not modelled.
\<close>

datatype json =
    JNull
  | JBool bool
  | JInt int
  | JFloat real
  | JStr string
  | JList "json list"
  | JDict "(string \<times> json) list"

text \<open>The exceptions the modelled code can raise. Every one is a subclass of
  \<^verbatim>\<open>Exception\<close>, so \<^verbatim>\<open>except Exception\<close> catches each of them.\<close>

datatype py_error = KeyError | AttributeError | TypeError | IndexError | ValueError | IOError | IllTyped

text \<open>\<^verbatim>\<open>data.get(key, default)\<close> and \<^verbatim>\<open>data.get(key)\<close> on a dictionary.\<close>

definition dict_get :: "(string \<times> json) list \<Rightarrow> string \<Rightarrow> json \<Rightarrow> json" where
  "dict_get d k dflt = (case map_of d k of None \<Rightarrow> dflt | Some v \<Rightarrow> v)"

text \<open>\<^verbatim>\<open>data[key]\<close> on a dictionary: a missing key raises \<^verbatim>\<open>KeyError\<close>.\<close>

definition dict_item :: "(string \<times> json) list \<Rightarrow> string \<Rightarrow> py_error + json" where
  "dict_item d k = (case map_of d k of None \<Rightarrow> Inl KeyError | Some v \<Rightarrow> Inr v)"

text \<open>\<^verbatim>\<open>x.get(key, default)\<close> on an arbitrary value: only a dictionary has \<^verbatim>\<open>get\<close>.\<close>

definition py_get :: "json \<Rightarrow> string \<Rightarrow> json \<Rightarrow> py_error + json" where
  "py_get x k dflt = (case x of JDict d \<Rightarrow> Inr (dict_get d k dflt) | _ \<Rightarrow> Inl AttributeError)"

text \<open>\<^verbatim>\<open>for t in x\<close>: a list yields its elements, a dictionary its keys, a string its
  characters as one-character strings; nothing else is iterable.\<close>

definition py_iter :: "json \<Rightarrow> py_error + json list" where
  "py_iter x = (case x of
       JList xs \<Rightarrow> Inr xs
     | JDict d \<Rightarrow> Inr (map (\<lambda>kv. JStr (fst kv)) d)
     | JStr s \<Rightarrow> Inr (map (\<lambda>c. JStr [c]) s)
     | _ \<Rightarrow> Inl TypeError)"

text \<open>Whether a value can be a dictionary key: lists and dictionaries are unhashable.\<close>

definition hashable :: "json \<Rightarrow> bool" where
  "hashable x = (case x of JList _ \<Rightarrow> False | JDict _ \<Rightarrow> False | _ \<Rightarrow> True)"

text \<open>Sequencing of calls that may raise: the first exception ends the computation.\<close>

definition try_bind :: "py_error + 'a \<Rightarrow> ('a \<Rightarrow> py_error + 'b) \<Rightarrow> py_error + 'b" where
  "try_bind r f = (case r of Inl e \<Rightarrow> Inl e | Inr v \<Rightarrow> f v)"

text \<open>The history file as \<^verbatim>\<open>load_from_file\<close> finds it: missing, not readable as
  JSON, or a parsed document.\<close>

datatype history_file = NoFile | Unreadable | Document json


section \<open>Data models (models.py)\<close>

text \<open>
  The dataclasses are records with the field types of their annotations. Python stores
  whatever value a document holds; a document field of another type than the annotation
  has no counterpart in a typed record, and the decoders below answer \<open>IllTyped\<close> for
  it. \<open>IllTyped\<close> is not a Python exception: it marks the documents that lie outside
  the typed model.
\<close>

definition as_str :: "json \<Rightarrow> py_error + string" where
  "as_str v = (case v of JStr s \<Rightarrow> Inr s | _ \<Rightarrow> Inl IllTyped)"

definition as_float :: "json \<Rightarrow> py_error + real" where
  "as_float v = (case v of JFloat r \<Rightarrow> Inr r | JInt i \<Rightarrow> Inr (real_of_int i) | _ \<Rightarrow> Inl IllTyped)"

definition as_int :: "json \<Rightarrow> py_error + int" where
  "as_int v = (case v of JInt i \<Rightarrow> Inr i | _ \<Rightarrow> Inl IllTyped)"

definition as_bool :: "json \<Rightarrow> py_error + bool" where
  "as_bool v = (case v of JBool b \<Rightarrow> Inr b | _ \<Rightarrow> Inl IllTyped)"

definition as_dict :: "json \<Rightarrow> py_error + (string \<times> json) list" where
  "as_dict v = (case v of JDict d \<Rightarrow> Inr d | _ \<Rightarrow> Inl IllTyped)"

fun try_map :: "('a \<Rightarrow> py_error + 'b) \<Rightarrow> 'a list \<Rightarrow> py_error + 'b list" where
  "try_map f [] = Inr []"
| "try_map f (x # xs) = try_bind (f x) (\<lambda>y. try_bind (try_map f xs) (\<lambda>ys. Inr (y # ys)))"

text \<open>\<^verbatim>\<open>data.get(key, []).copy()\<close> for a field annotated \<^verbatim>\<open>list[str]\<close>: a value without
  \<^verbatim>\<open>copy\<close> raises \<^verbatim>\<open>AttributeError\<close>; a dictionary has \<^verbatim>\<open>copy\<close> but is no list.\<close>

definition copy_str_list :: "json \<Rightarrow> py_error + string list" where
  "copy_str_list v = (case v of
       JList xs \<Rightarrow> try_map as_str xs
     | JDict d \<Rightarrow> Inl IllTyped
     | _ \<Rightarrow> Inl AttributeError)"

text \<open>\<^verbatim>\<open>generate_uuid\<close> draws from a source of randomness: an endless supply of
  identifiers, of which each call takes the next.\<close>

type_synonym uuids = "nat \<Rightarrow> string"

definition generate_uuid :: "uuids \<Rightarrow> string \<times> uuids" where
  "generate_uuid g = (g 0, \<lambda>n. g (Suc n))"

record Snippet =
  snippet_id :: string
  snippet_type :: string
  content :: string
  source_label :: string

definition Snippet_to_dict :: "Snippet \<Rightarrow> json" where
  "Snippet_to_dict sn = JDict
     [(''id'', JStr (snippet_id sn)),
      (''type'', JStr (snippet_type sn)),
      (''content'', JStr (content sn)),
      (''source_label'', JStr (source_label sn))]"

text \<open>The default of \<^verbatim>\<open>data.get("id", generate_uuid())\<close> is evaluated before the
  lookup: an identifier is drawn whether or not the document has an id.\<close>

definition Snippet_from_dict :: "json \<Rightarrow> uuids \<Rightarrow> py_error + Snippet \<times> uuids" where
  "Snippet_from_dict data g =
     (case data of
        JDict d \<Rightarrow>
          (let fresh = generate_uuid g in
           try_bind (as_str (dict_get d ''id'' (JStr (fst fresh)))) (\<lambda>i.
           try_bind (as_str (dict_get d ''type'' (JStr ''text''))) (\<lambda>t.
           try_bind (as_str (dict_get d ''content'' (JStr []))) (\<lambda>c.
           try_bind (as_str (dict_get d ''source_label'' (JStr []))) (\<lambda>l.
             Inr (\<lparr>snippet_id = i, snippet_type = t, content = c, source_label = l\<rparr>,
                  snd fresh))))))
      | _ \<Rightarrow> Inl AttributeError)"

text \<open>\<^verbatim>\<open>deep_copy\<close>: a new identifier, and the attribution label when a title is given.\<close>

definition deep_copy :: "Snippet \<Rightarrow> string \<Rightarrow> uuids \<Rightarrow> Snippet \<times> uuids" where
  "deep_copy sn source_title g =
     (let fresh = generate_uuid g in
      (\<lparr>snippet_id = fst fresh, snippet_type = snippet_type sn, content = content sn,
        source_label = (if source_title \<noteq> [] then ''From: '' @ source_title else source_label sn)\<rparr>,
       snd fresh))"

record Position =
  pos_x :: real
  pos_y :: real

definition Position_to_dict :: "Position \<Rightarrow> json" where
  "Position_to_dict p = JDict [(''x'', JFloat (pos_x p)), (''y'', JFloat (pos_y p))]"

definition Position_from_dict :: "json \<Rightarrow> py_error + Position" where
  "Position_from_dict data =
     (case data of
        JDict d \<Rightarrow>
          try_bind (as_float (dict_get d ''x'' (JFloat 0))) (\<lambda>vx.
          try_bind (as_float (dict_get d ''y'' (JFloat 0))) (\<lambda>vy.
            Inr \<lparr>pos_x = vx, pos_y = vy\<rparr>))
      | _ \<Rightarrow> Inl AttributeError)"

record NodeMetadata =
  title :: string
  year :: string
  conference :: string
  relative_path_to_md :: string
  module_name' :: string
  module_type :: string

definition NodeMetadata_to_dict :: "NodeMetadata \<Rightarrow> json" where
  "NodeMetadata_to_dict md = JDict
     [(''title'', JStr (title md)),
      (''year'', JStr (year md)),
      (''conference'', JStr (conference md)),
      (''relative_path_to_md'', JStr (relative_path_to_md md)),
      (''module_name'', JStr (module_name' md)),
      (''module_type'', JStr (module_type md))]"

definition NodeMetadata_from_dict :: "json \<Rightarrow> py_error + NodeMetadata" where
  "NodeMetadata_from_dict data =
     (case data of
        JDict d \<Rightarrow>
          try_bind (as_str (dict_get d ''title'' (JStr []))) (\<lambda>t.
          try_bind (as_str (dict_get d ''year'' (JStr []))) (\<lambda>yr.
          try_bind (as_str (dict_get d ''conference'' (JStr []))) (\<lambda>cf.
          try_bind (as_str (dict_get d ''relative_path_to_md'' (JStr []))) (\<lambda>rp.
          try_bind (as_str (dict_get d ''module_name'' (JStr []))) (\<lambda>mn.
          try_bind (as_str (dict_get d ''module_type'' (JStr []))) (\<lambda>mt.
            Inr \<lparr>title = t, year = yr, conference = cf, relative_path_to_md = rp,
                 module_name' = mn, module_type = mt\<rparr>))))))
      | _ \<Rightarrow> Inl AttributeError)"

text \<open>A comprehension \<^verbatim>\<open>[C.from_dict(s) for s in items]\<close> whose calls each draw their
  own identifier.\<close>

fun from_dict_list ::
  "(json \<Rightarrow> uuids \<Rightarrow> py_error + 'a \<times> uuids) \<Rightarrow> json list \<Rightarrow> uuids \<Rightarrow> py_error + 'a list \<times> uuids" where
  "from_dict_list f [] g = Inr ([], g)"
| "from_dict_list f (x # xs) g =
     try_bind (f x g) (\<lambda>r.
     try_bind (from_dict_list f xs (snd r)) (\<lambda>rs.
       Inr (fst r # fst rs, snd rs)))"

record NodeData =
  node_id :: string
  node_type :: string
  position :: Position
  tags :: "string list"
  metadata :: NodeMetadata
  snippets :: "Snippet list"

definition NodeData_to_dict :: "NodeData \<Rightarrow> json" where
  "NodeData_to_dict n = JDict
     [(''id'', JStr (node_id n)),
      (''type'', JStr (node_type n)),
      (''position'', Position_to_dict (position n)),
      (''tags'', JList (map JStr (tags n))),
      (''metadata'', NodeMetadata_to_dict (metadata n)),
      (''snippets'', JList (map Snippet_to_dict (snippets n)))]"

definition NodeData_from_dict :: "json \<Rightarrow> uuids \<Rightarrow> py_error + NodeData \<times> uuids" where
  "NodeData_from_dict data g =
     (case data of
        JDict d \<Rightarrow>
          (let fresh = generate_uuid g in
           try_bind (as_str (dict_get d ''id'' (JStr (fst fresh)))) (\<lambda>i.
           try_bind (as_str (dict_get d ''type'' (JStr ''pipeline_module''))) (\<lambda>t.
           try_bind (Position_from_dict (dict_get d ''position'' (JDict []))) (\<lambda>p.
           try_bind (copy_str_list (dict_get d ''tags'' (JList []))) (\<lambda>tg.
           try_bind (NodeMetadata_from_dict (dict_get d ''metadata'' (JDict []))) (\<lambda>md.
           try_bind (py_iter (dict_get d ''snippets'' (JList []))) (\<lambda>raw.
           try_bind (from_dict_list Snippet_from_dict raw (snd fresh)) (\<lambda>sns.
             Inr (\<lparr>node_id = i, node_type = t, position = p, tags = tg, metadata = md,
                   snippets = fst sns\<rparr>, snd sns)))))))))
      | _ \<Rightarrow> Inl AttributeError)"

record EdgeData =
  edge_id :: string
  source_id :: string
  target_id :: string

definition EdgeData_to_dict :: "EdgeData \<Rightarrow> json" where
  "EdgeData_to_dict e = JDict
     [(''id'', JStr (edge_id e)),
      (''source_id'', JStr (source_id e)),
      (''target_id'', JStr (target_id e))]"

definition EdgeData_from_dict :: "json \<Rightarrow> uuids \<Rightarrow> py_error + EdgeData \<times> uuids" where
  "EdgeData_from_dict data g =
     (case data of
        JDict d \<Rightarrow>
          (let fresh = generate_uuid g in
           try_bind (as_str (dict_get d ''id'' (JStr (fst fresh)))) (\<lambda>i.
           try_bind (as_str (dict_get d ''source_id'' (JStr []))) (\<lambda>src.
           try_bind (as_str (dict_get d ''target_id'' (JStr []))) (\<lambda>tgt.
             Inr (\<lparr>edge_id = i, source_id = src, target_id = tgt\<rparr>, snd fresh)))))
      | _ \<Rightarrow> Inl AttributeError)"

record GroupData =
  group_id :: string
  group_name :: string
  group_position :: Position
  width :: real
  height :: real
  color :: string
  node_ids :: "string list"

definition GroupData_to_dict :: "GroupData \<Rightarrow> json" where
  "GroupData_to_dict gd = JDict
     [(''id'', JStr (group_id gd)),
      (''name'', JStr (group_name gd)),
      (''position'', Position_to_dict (group_position gd)),
      (''width'', JFloat (width gd)),
      (''height'', JFloat (height gd)),
      (''color'', JStr (color gd)),
      (''node_ids'', JList (map JStr (node_ids gd)))]"

definition GroupData_from_dict :: "json \<Rightarrow> uuids \<Rightarrow> py_error + GroupData \<times> uuids" where
  "GroupData_from_dict data g =
     (case data of
        JDict d \<Rightarrow>
          (let fresh = generate_uuid g in
           try_bind (as_str (dict_get d ''id'' (JStr (fst fresh)))) (\<lambda>i.
           try_bind (as_str (dict_get d ''name'' (JStr ''Group''))) (\<lambda>nm.
           try_bind (Position_from_dict (dict_get d ''position'' (JDict []))) (\<lambda>p.
           try_bind (as_float (dict_get d ''width'' (JFloat 300))) (\<lambda>w.
           try_bind (as_float (dict_get d ''height'' (JFloat 200))) (\<lambda>ht.
           try_bind (as_str (dict_get d ''color'' (JStr ''#78909C''))) (\<lambda>cl.
           try_bind (copy_str_list (dict_get d ''node_ids'' (JList []))) (\<lambda>ids.
             Inr (\<lparr>group_id = i, group_name = nm, group_position = p, width = w, height = ht,
                   color = cl, node_ids = ids\<rparr>, snd fresh)))))))))
      | _ \<Rightarrow> Inl AttributeError)"

record ProjectData =
  global_tags :: "json list"
  nodes :: "NodeData list"
  edges :: "EdgeData list"
  pipeline_initialized :: bool
  description :: string
  todos :: "(string \<times> json) list list"
  pipeline_edge_color :: string
  reference_edge_color :: string
  dock_layout :: "int list"
  module_colors :: "(string \<times> json) list"
  groups :: "GroupData list"

definition default_module_colors :: "(string \<times> json) list" where
  "default_module_colors =
     [(''input'', JStr ''#4CAF50''),
      (''process'', JStr ''#9C27B0''),
      (''decision'', JStr ''#FF9800''),
      (''output'', JStr ''#2196F3'')]"

text \<open>\<^verbatim>\<open>ProjectData()\<close> with every field at its dataclass default.\<close>

definition ProjectData_new :: ProjectData where
  "ProjectData_new =
     \<lparr>global_tags = [], nodes = [], edges = [], pipeline_initialized = False,
      description = [], todos = [], pipeline_edge_color = ''#607D8B'',
      reference_edge_color = ''#4CAF50'', dock_layout = [],
      module_colors = default_module_colors, groups = []\<rparr>"

text \<open>The element of \<^verbatim>\<open>to_dict\<close>'s comprehension over \<^verbatim>\<open>global_tags\<close>:
  \<^verbatim>\<open>t.copy() if isinstance(t, dict) else {"name": t, "color": None}\<close>.\<close>

definition tag_to_dict :: "json \<Rightarrow> json" where
  "tag_to_dict t = (case t of JDict d \<Rightarrow> JDict d | _ \<Rightarrow> JDict [(''name'', t), (''color'', JNull)])"

definition ProjectData_to_dict :: "ProjectData \<Rightarrow> json" where
  "ProjectData_to_dict pd = JDict
     [(''global_tags'', JList (map tag_to_dict (global_tags pd))),
      (''nodes'', JList (map NodeData_to_dict (nodes pd))),
      (''edges'', JList (map EdgeData_to_dict (edges pd))),
      (''groups'', JList (map GroupData_to_dict (groups pd))),
      (''pipeline_initialized'', JBool (pipeline_initialized pd)),
      (''description'', JStr (description pd)),
      (''todos'', JList (map JDict (todos pd))),
      (''pipeline_edge_color'', JStr (pipeline_edge_color pd)),
      (''reference_edge_color'', JStr (reference_edge_color pd)),
      (''dock_layout'', JList (map JInt (dock_layout pd))),
      (''module_colors'', JDict (module_colors pd))]"

text \<open>The body of the loop over \<^verbatim>\<open>raw_tags\<close> in \<^verbatim>\<open>from_dict\<close>: a string is a tag of
  the old format; anything else is appended as it is.\<close>

definition migrate_tag :: "json \<Rightarrow> json" where
  "migrate_tag t = (case t of JStr s \<Rightarrow> JDict [(''name'', JStr s), (''color'', JNull)] | _ \<Rightarrow> t)"

text \<open>Decoders of the fields that \<^verbatim>\<open>from_dict\<close> takes over unchecked.\<close>

definition as_dict_list :: "json \<Rightarrow> py_error + (string \<times> json) list list" where
  "as_dict_list v = (case v of JList xs \<Rightarrow> try_map as_dict xs | _ \<Rightarrow> Inl IllTyped)"

definition as_int_list :: "json \<Rightarrow> py_error + int list" where
  "as_int_list v = (case v of JList xs \<Rightarrow> try_map as_int xs | _ \<Rightarrow> Inl IllTyped)"

definition ProjectData_from_dict :: "json \<Rightarrow> uuids \<Rightarrow> py_error + ProjectData \<times> uuids" where
  "ProjectData_from_dict data g =
     (case data of
        JDict d \<Rightarrow>
          try_bind (py_iter (dict_get d ''global_tags'' (JList []))) (\<lambda>raw_tags.
          try_bind (py_iter (dict_get d ''nodes'' (JList []))) (\<lambda>raw_nodes.
          try_bind (from_dict_list NodeData_from_dict raw_nodes g) (\<lambda>ns.
          try_bind (py_iter (dict_get d ''edges'' (JList []))) (\<lambda>raw_edges.
          try_bind (from_dict_list EdgeData_from_dict raw_edges (snd ns)) (\<lambda>es.
          try_bind (py_iter (dict_get d ''groups'' (JList []))) (\<lambda>raw_groups.
          try_bind (from_dict_list GroupData_from_dict raw_groups (snd es)) (\<lambda>gs.
          try_bind (as_bool (dict_get d ''pipeline_initialized'' (JBool False))) (\<lambda>pin.
          try_bind (as_str (dict_get d ''description'' (JStr []))) (\<lambda>ds.
          try_bind (as_dict_list (dict_get d ''todos'' (JList []))) (\<lambda>td.
          try_bind (as_str (dict_get d ''pipeline_edge_color'' (JStr ''#607D8B''))) (\<lambda>pc.
          try_bind (as_str (dict_get d ''reference_edge_color'' (JStr ''#4CAF50''))) (\<lambda>rc.
          try_bind (as_int_list (dict_get d ''dock_layout'' (JList []))) (\<lambda>dl.
          try_bind (as_dict (dict_get d ''module_colors'' (JDict default_module_colors))) (\<lambda>mc.
            Inr (\<lparr>global_tags = map migrate_tag raw_tags, nodes = fst ns, edges = fst es,
                  pipeline_initialized = pin, description = ds, todos = td,
                  pipeline_edge_color = pc, reference_edge_color = rc, dock_layout = dl,
                  module_colors = mc, groups = fst gs\<rparr>, snd gs)))))))))))))))
      | _ \<Rightarrow> Inl AttributeError)"

definition get_node_by_id :: "ProjectData \<Rightarrow> string \<Rightarrow> NodeData option" where
  "get_node_by_id pd nid = find (\<lambda>n. node_id n = nid) (nodes pd)"

definition get_edges_for_node :: "ProjectData \<Rightarrow> string \<Rightarrow> EdgeData list" where
  "get_edges_for_node pd nid = filter (\<lambda>e. source_id e = nid \<or> target_id e = nid) (edges pd)"

definition has_pipeline_module :: "ProjectData \<Rightarrow> bool" where
  "has_pipeline_module pd = list_ex (\<lambda>n. node_type n = ''pipeline_module'') (nodes pd)"

subsection \<open>Partial documents\<close>

text \<open>A partial document of an entity is a JSON object in which any field may be
  missing and every field that is there has the type of the dataclass annotation; a
  nested entity is a partial document of its own. \<open>absent_or P d k\<close> says so for the
  field \<open>k\<close> of the object \<open>d\<close>.\<close>

definition absent_or :: "(json \<Rightarrow> bool) \<Rightarrow> (string \<times> json) list \<Rightarrow> string \<Rightarrow> bool" where
  "absent_or P d k = (case map_of d k of None \<Rightarrow> True | Some v \<Rightarrow> P v)"

definition is_str :: "json \<Rightarrow> bool" where
  "is_str v = (case v of JStr s \<Rightarrow> True | _ \<Rightarrow> False)"

definition is_num :: "json \<Rightarrow> bool" where
  "is_num v = (case v of JFloat r \<Rightarrow> True | JInt i \<Rightarrow> True | _ \<Rightarrow> False)"

definition is_int :: "json \<Rightarrow> bool" where
  "is_int v = (case v of JInt i \<Rightarrow> True | _ \<Rightarrow> False)"

definition is_bool :: "json \<Rightarrow> bool" where
  "is_bool v = (case v of JBool b \<Rightarrow> True | _ \<Rightarrow> False)"

definition is_dict :: "json \<Rightarrow> bool" where
  "is_dict v = (case v of JDict d \<Rightarrow> True | _ \<Rightarrow> False)"

definition is_list_of :: "(json \<Rightarrow> bool) \<Rightarrow> json \<Rightarrow> bool" where
  "is_list_of P v = (case v of JList xs \<Rightarrow> list_all P xs | _ \<Rightarrow> False)"

definition partial_Snippet :: "json \<Rightarrow> bool" where
  "partial_Snippet v = (case v of
       JDict d \<Rightarrow> absent_or is_str d ''id'' \<and> absent_or is_str d ''type'' \<and>
                  absent_or is_str d ''content'' \<and> absent_or is_str d ''source_label''
     | _ \<Rightarrow> False)"

definition partial_Position :: "json \<Rightarrow> bool" where
  "partial_Position v = (case v of
       JDict d \<Rightarrow> absent_or is_num d ''x'' \<and> absent_or is_num d ''y''
     | _ \<Rightarrow> False)"

definition partial_NodeMetadata :: "json \<Rightarrow> bool" where
  "partial_NodeMetadata v = (case v of
       JDict d \<Rightarrow> absent_or is_str d ''title'' \<and> absent_or is_str d ''year'' \<and>
                  absent_or is_str d ''conference'' \<and> absent_or is_str d ''relative_path_to_md'' \<and>
                  absent_or is_str d ''module_name'' \<and> absent_or is_str d ''module_type''
     | _ \<Rightarrow> False)"

definition partial_NodeData :: "json \<Rightarrow> bool" where
  "partial_NodeData v = (case v of
       JDict d \<Rightarrow> absent_or is_str d ''id'' \<and> absent_or is_str d ''type'' \<and>
                  absent_or partial_Position d ''position'' \<and>
                  absent_or (is_list_of is_str) d ''tags'' \<and>
                  absent_or partial_NodeMetadata d ''metadata'' \<and>
                  absent_or (is_list_of partial_Snippet) d ''snippets''
     | _ \<Rightarrow> False)"

definition partial_EdgeData :: "json \<Rightarrow> bool" where
  "partial_EdgeData v = (case v of
       JDict d \<Rightarrow> absent_or is_str d ''id'' \<and> absent_or is_str d ''source_id'' \<and>
                  absent_or is_str d ''target_id''
     | _ \<Rightarrow> False)"

definition partial_GroupData :: "json \<Rightarrow> bool" where
  "partial_GroupData v = (case v of
       JDict d \<Rightarrow> absent_or is_str d ''id'' \<and> absent_or is_str d ''name'' \<and>
                  absent_or partial_Position d ''position'' \<and>
                  absent_or is_num d ''width'' \<and> absent_or is_num d ''height'' \<and>
                  absent_or is_str d ''color'' \<and> absent_or (is_list_of is_str) d ''node_ids''
     | _ \<Rightarrow> False)"

definition partial_ProjectData :: "json \<Rightarrow> bool" where
  "partial_ProjectData v = (case v of
       JDict d \<Rightarrow> absent_or (is_list_of (\<lambda>t. True)) d ''global_tags'' \<and>
                  absent_or (is_list_of partial_NodeData) d ''nodes'' \<and>
                  absent_or (is_list_of partial_EdgeData) d ''edges'' \<and>
                  absent_or (is_list_of partial_GroupData) d ''groups'' \<and>
                  absent_or is_bool d ''pipeline_initialized'' \<and>
                  absent_or is_str d ''description'' \<and>
                  absent_or (is_list_of is_dict) d ''todos'' \<and>
                  absent_or is_str d ''pipeline_edge_color'' \<and>
                  absent_or is_str d ''reference_edge_color'' \<and>
                  absent_or (is_list_of is_int) d ''dock_layout'' \<and>
                  absent_or is_dict d ''module_colors''
     | _ \<Rightarrow> False)"

text \<open>A document completed with the given entries for the keys that it lacks.\<close>

definition complete :: "(string \<times> json) list \<Rightarrow> (string \<times> json) list \<Rightarrow> (string \<times> json) list" where
  "complete d defaults = d @ filter (\<lambda>kv. map_of d (fst kv) = None) defaults"

text \<open>The defaults of the fields, as the \<^verbatim>\<open>data.get\<close> calls of each \<^verbatim>\<open>from_dict\<close> give
  them; the default of an identifier is the one that \<^verbatim>\<open>generate_uuid\<close> draws.\<close>

definition Snippet_defaults :: "uuids \<Rightarrow> (string \<times> json) list" where
  "Snippet_defaults g =
     [(''id'', JStr (fst (generate_uuid g))), (''type'', JStr ''text''), (''content'', JStr []),
      (''source_label'', JStr [])]"

definition Position_defaults :: "(string \<times> json) list" where
  "Position_defaults = [(''x'', JFloat 0), (''y'', JFloat 0)]"

definition NodeMetadata_defaults :: "(string \<times> json) list" where
  "NodeMetadata_defaults =
     [(''title'', JStr []), (''year'', JStr []), (''conference'', JStr []),
      (''relative_path_to_md'', JStr []), (''module_name'', JStr []), (''module_type'', JStr [])]"

definition NodeData_defaults :: "uuids \<Rightarrow> (string \<times> json) list" where
  "NodeData_defaults g =
     [(''id'', JStr (fst (generate_uuid g))), (''type'', JStr ''pipeline_module''),
      (''position'', JDict []), (''tags'', JList []), (''metadata'', JDict []),
      (''snippets'', JList [])]"

definition EdgeData_defaults :: "uuids \<Rightarrow> (string \<times> json) list" where
  "EdgeData_defaults g =
     [(''id'', JStr (fst (generate_uuid g))), (''source_id'', JStr []), (''target_id'', JStr [])]"

definition GroupData_defaults :: "uuids \<Rightarrow> (string \<times> json) list" where
  "GroupData_defaults g =
     [(''id'', JStr (fst (generate_uuid g))), (''name'', JStr ''Group''), (''position'', JDict []),
      (''width'', JFloat 300), (''height'', JFloat 200), (''color'', JStr ''#78909C''),
      (''node_ids'', JList [])]"

definition ProjectData_defaults :: "(string \<times> json) list" where
  "ProjectData_defaults =
     [(''global_tags'', JList []), (''nodes'', JList []), (''edges'', JList []),
      (''groups'', JList []), (''pipeline_initialized'', JBool False), (''description'', JStr []),
      (''todos'', JList []), (''pipeline_edge_color'', JStr ''#607D8B''),
      (''reference_edge_color'', JStr ''#4CAF50''), (''dock_layout'', JList []),
      (''module_colors'', JDict default_module_colors)]"


section \<open>Project manager: validation and asset cleanup (utils.py)\<close>

text \<open>The part of \<^verbatim>\<open>ProjectManager\<close> that validation reads and writes. The asset
  directories of the open project are given by their entries; \<open>None\<close> is a directory
  that does not exist. Removing a \<open>LockedFile\<close> raises \<^verbatim>\<open>IOError\<close>.\<close>

record ProjectManager =
  current_project_name :: "string option"
  current_project_path :: "string option"
  project_data :: "ProjectData option"

datatype entry_kind = RegularFile | LockedFile | SubDirectory

record asset_store =
  papers_dir :: "(string \<times> entry_kind) list option"
  images_dir :: "(string \<times> entry_kind) list option"

definition is_project_open :: "ProjectManager \<Rightarrow> bool" where
  "is_project_open pm = (current_project_path pm \<noteq> None)"

definition get_referenced_assets :: "ProjectManager \<Rightarrow> string list \<times> string list" where
  "get_referenced_assets pm =
     (case project_data pm of
        None \<Rightarrow> ([], [])
      | Some pd \<Rightarrow>
          (map (\<lambda>n. relative_path_to_md (metadata n))
             (filter (\<lambda>n. node_type n = ''reference_paper'' \<and> relative_path_to_md (metadata n) \<noteq> [])
                (nodes pd)),
           map content
             (filter (\<lambda>sn. snippet_type sn = ''image'' \<and> content sn \<noteq> [])
                (concat (map snippets (nodes pd))))))"

text \<open>One of the two loops of \<^verbatim>\<open>cleanup_orphaned_assets\<close>: the entries that stay in the
  directory, and the number of files deleted.\<close>

fun clean_dir ::
  "string \<Rightarrow> string list \<Rightarrow> (string \<times> entry_kind) list \<Rightarrow> (string \<times> entry_kind) list \<times> nat" where
  "clean_dir prefix refs [] = ([], 0)"
| "clean_dir prefix refs (f # fs) =
     (let rest = clean_dir prefix refs fs in
      if snd f = SubDirectory then (f # fst rest, snd rest)
      else if prefix @ fst f \<in> set refs then (f # fst rest, snd rest)
      else if snd f = LockedFile then (f # fst rest, snd rest)
      else (fst rest, Suc (snd rest)))"

definition cleanup_orphaned_assets ::
  "ProjectManager \<Rightarrow> asset_store \<Rightarrow> (string \<times> nat) list \<times> asset_store" where
  "cleanup_orphaned_assets pm store =
     (if \<not> is_project_open pm then ([(''papers'', 0), (''images'', 0)], store)
      else
        let refs = get_referenced_assets pm;
            papers = (case papers_dir store of
                        None \<Rightarrow> (None, 0)
                      | Some fs \<Rightarrow> (let r = clean_dir ''assets/papers/'' (fst refs) fs
                                   in (Some (fst r), snd r)));
            images = (case images_dir store of
                        None \<Rightarrow> (None, 0)
                      | Some fs \<Rightarrow> (let r = clean_dir ''assets/images/'' (snd refs) fs
                                   in (Some (fst r), snd r)))
        in ([(''papers'', snd papers), (''images'', snd images)],
            \<lparr>papers_dir = fst papers, images_dir = fst images\<rparr>))"

text \<open>The loop of \<^verbatim>\<open>validate_and_clean_data\<close> over the edges: the valid edges in their
  order, and the count of the others.\<close>

fun validate_edges :: "string list \<Rightarrow> EdgeData list \<Rightarrow> EdgeData list \<times> nat" where
  "validate_edges valid_node_ids [] = ([], 0)"
| "validate_edges valid_node_ids (edge # rest) =
     (let r = validate_edges valid_node_ids rest in
      if source_id edge \<in> set valid_node_ids \<and> target_id edge \<in> set valid_node_ids
      then (edge # fst r, snd r)
      else (fst r, Suc (snd r)))"

text \<open>\<^verbatim>\<open>validate_and_clean_data\<close>. With a project path but no project data,
  \<^verbatim>\<open>self.project_data.nodes\<close> raises \<^verbatim>\<open>AttributeError\<close>. The result is the dictionary
  of counts, empty when no project is open.\<close>

definition validate_and_clean_data ::
  "ProjectManager \<Rightarrow> asset_store \<Rightarrow> py_error + (string \<times> nat) list \<times> ProjectManager \<times> asset_store" where
  "validate_and_clean_data pm store =
     (if \<not> is_project_open pm then Inr ([], pm, store)
      else case project_data pm of
          None \<Rightarrow> Inl AttributeError
        | Some pd \<Rightarrow>
            let valid_node_ids = map node_id (nodes pd);
                checked = validate_edges valid_node_ids (edges pd);
                pm1 = pm\<lparr>project_data := Some (pd\<lparr>edges := fst checked\<rparr>)\<rparr>;
                removed_assets = cleanup_orphaned_assets pm1 store
            in Inr ([(''edges_removed'', snd checked),
                     (''assets_removed'', sum_list (map snd (fst removed_assets)))],
                    pm1, snd removed_assets))"


section \<open>The Mutation Target\<close>

text \<open>
  Commands act on their \<^verbatim>\<open>context\<close>, the main window, through the attributes
  \<^verbatim>\<open>project_dock\<close>, \<^verbatim>\<open>scene\<close>, \<^verbatim>\<open>project_manager\<close> and \<^verbatim>\<open>module_palette\<close>; every command
  tests with \<^verbatim>\<open>hasattr\<close> whether the attribute is there, so each is optional. The
  classes behind these attributes belong to the user interface and are not among the
  sources; their state and their methods are modelled from the interface that the
  specification gives for the Mutation Target.
\<close>

subsection \<open>Index-addressed lists\<close>

text \<open>Modelled from the spec: the list operations behind the index-addressed to-do and
  tag primitives of the Mutation Target (insert-at, remove-at, move), which are missing
  from the sources.\<close>

definition index_ok :: "int \<Rightarrow> 'a list \<Rightarrow> bool" where
  "index_ok i xs = (0 \<le> i \<and> i < int (length xs))"

definition remove_at :: "int \<Rightarrow> 'a list \<Rightarrow> 'a list" where
  "remove_at i xs = take (nat i) xs @ drop (Suc (nat i)) xs"

definition insert_at :: "int \<Rightarrow> 'a \<Rightarrow> 'a list \<Rightarrow> 'a list" where
  "insert_at i v xs = take (nat i) xs @ v # drop (nat i) xs"

definition move_item :: "int \<Rightarrow> int \<Rightarrow> 'a list \<Rightarrow> 'a list" where
  "move_item src dst xs = insert_at dst (xs ! nat src) (remove_at src xs)"

subsection \<open>Project dock: description, to-dos, tags\<close>

text \<open>A to-do is its text and its done flag; a tag is its name and its colour, \<open>None\<close>
  being the default colour (Python's \<^verbatim>\<open>None\<close>).\<close>

record dock =
  dock_description :: string
  dock_todos :: "(string \<times> bool) list"
  dock_tags :: "(string \<times> string option) list"
  dock_pipeline_color :: string
  dock_reference_color :: string

text \<open>Modelled from the spec: \<^verbatim>\<open>project_dock.set_description\<close>, which is missing from
  the sources. It replaces the description.\<close>

definition set_description :: "string \<Rightarrow> dock \<Rightarrow> dock" where
  "set_description v d = d\<lparr>dock_description := v\<rparr>"

text \<open>Modelled from the spec: \<^verbatim>\<open>project_dock.add_todo\<close>, which is missing from the
  sources. A new to-do goes to the end of the list and is not done.\<close>

definition add_todo :: "string \<Rightarrow> dock \<Rightarrow> dock" where
  "add_todo text d = d\<lparr>dock_todos := dock_todos d @ [(text, False)]\<rparr>"

text \<open>Modelled from the spec: \<^verbatim>\<open>project_dock.remove_todo_at\<close>, which is missing from the
  sources: the index-addressed primitive remove-at. An index outside the list is an
  \<^verbatim>\<open>IndexError\<close>.\<close>

definition remove_todo_at :: "int \<Rightarrow> dock \<Rightarrow> py_error + dock" where
  "remove_todo_at i d =
     (if index_ok i (dock_todos d) then Inr (d\<lparr>dock_todos := remove_at i (dock_todos d)\<rparr>)
      else Inl IndexError)"

text \<open>Modelled from the spec: \<^verbatim>\<open>project_dock.insert_todo\<close>, which is missing from the
  sources: the index-addressed primitive insert-at; the index may be the length of the
  list.\<close>

definition insert_todo :: "int \<Rightarrow> string \<Rightarrow> bool \<Rightarrow> dock \<Rightarrow> py_error + dock" where
  "insert_todo i text done d =
     (if 0 \<le> i \<and> i \<le> int (length (dock_todos d))
      then Inr (d\<lparr>dock_todos := insert_at i (text, done) (dock_todos d)\<rparr>)
      else Inl IndexError)"

text \<open>Modelled from the spec: \<^verbatim>\<open>project_dock.update_todo_text\<close>, which is missing from
  the sources: the index-addressed primitive update-text-at.\<close>

definition update_todo_text :: "int \<Rightarrow> string \<Rightarrow> dock \<Rightarrow> py_error + dock" where
  "update_todo_text i text d =
     (if index_ok i (dock_todos d)
      then Inr (d\<lparr>dock_todos := (dock_todos d)[nat i := (text, snd (dock_todos d ! nat i))]\<rparr>)
      else Inl IndexError)"

text \<open>Modelled from the spec: \<^verbatim>\<open>project_dock.set_todo_status\<close>, which is missing from
  the sources: the index-addressed primitive set-done-at.\<close>

definition set_todo_status :: "int \<Rightarrow> bool \<Rightarrow> dock \<Rightarrow> py_error + dock" where
  "set_todo_status i done d =
     (if index_ok i (dock_todos d)
      then Inr (d\<lparr>dock_todos := (dock_todos d)[nat i := (fst (dock_todos d ! nat i), done)]\<rparr>)
      else Inl IndexError)"

text \<open>Modelled from the spec: \<^verbatim>\<open>project_dock.move_todo\<close>, which is missing from the
  sources: the index-addressed primitive move. The item is taken out at the first index
  and put back at the second.\<close>

definition move_todo :: "int \<Rightarrow> int \<Rightarrow> dock \<Rightarrow> py_error + dock" where
  "move_todo src dst d =
     (if index_ok src (dock_todos d) \<and> index_ok dst (dock_todos d)
      then Inr (d\<lparr>dock_todos := move_item src dst (dock_todos d)\<rparr>)
      else Inl IndexError)"

text \<open>Modelled from the spec: \<^verbatim>\<open>project_dock.insert_tag\<close>, which is missing from the
  sources: the index-addressed primitive insert-at on the tag list.\<close>

definition insert_tag :: "int \<Rightarrow> string \<Rightarrow> string option \<Rightarrow> dock \<Rightarrow> py_error + dock" where
  "insert_tag i name' c d =
     (if 0 \<le> i \<and> i \<le> int (length (dock_tags d))
      then Inr (d\<lparr>dock_tags := insert_at i (name', c) (dock_tags d)\<rparr>)
      else Inl IndexError)"

text \<open>Modelled from the spec: \<^verbatim>\<open>project_dock.remove_tag_by_name\<close>, which is missing from
  the sources. It removes the first tag of that name, and nothing when there is none.\<close>

fun remove_first :: "string \<Rightarrow> (string \<times> 'a) list \<Rightarrow> (string \<times> 'a) list" where
  "remove_first k [] = []"
| "remove_first k (t # ts) = (if fst t = k then ts else t # remove_first k ts)"

definition remove_tag_by_name :: "string \<Rightarrow> dock \<Rightarrow> dock" where
  "remove_tag_by_name name' d = d\<lparr>dock_tags := remove_first name' (dock_tags d)\<rparr>"

text \<open>Modelled from the spec: \<^verbatim>\<open>project_dock.rename_tag_item\<close>, which is missing from the
  sources: the primitive rename. The tag of the old name gets the new name.\<close>

definition rename_tag_item :: "string \<Rightarrow> string \<Rightarrow> dock \<Rightarrow> dock" where
  "rename_tag_item old new d =
     d\<lparr>dock_tags := map (\<lambda>t. if fst t = old then (new, snd t) else t) (dock_tags d)\<rparr>"

text \<open>Modelled from the spec: \<^verbatim>\<open>project_dock.set_tag_color\<close>, which is missing from the
  sources: the primitive recolor. The tag of that name gets the colour.\<close>

definition set_tag_color :: "string \<Rightarrow> string option \<Rightarrow> dock \<Rightarrow> dock" where
  "set_tag_color name' c d =
     d\<lparr>dock_tags := map (\<lambda>t. if fst t = name' then (fst t, c) else t) (dock_tags d)\<rparr>"

text \<open>Modelled from the spec: \<^verbatim>\<open>project_dock.move_tag\<close>, which is missing from the
  sources: the index-addressed primitive move on the tag list.\<close>

definition move_tag :: "int \<Rightarrow> int \<Rightarrow> dock \<Rightarrow> py_error + dock" where
  "move_tag src dst d =
     (if index_ok src (dock_tags d) \<and> index_ok dst (dock_tags d)
      then Inr (d\<lparr>dock_tags := move_item src dst (dock_tags d)\<rparr>)
      else Inl IndexError)"

text \<open>Modelled from the spec: \<^verbatim>\<open>project_dock.set_edge_colors\<close>, which is missing from the
  sources. The dock shows the two colours.\<close>

definition dock_set_edge_colors :: "string \<Rightarrow> string \<Rightarrow> dock \<Rightarrow> dock" where
  "dock_set_edge_colors pipeline reference d =
     d\<lparr>dock_pipeline_color := pipeline, dock_reference_color := reference\<rparr>"

subsection \<open>Scene: node, waypoint and group items\<close>

text \<open>A graphics item has the position that \<^verbatim>\<open>setPos\<close> writes and \<^verbatim>\<open>pos\<close> reads, and the
  data record that the commands write next to it. \<^verbatim>\<open>_nodes\<close>, \<^verbatim>\<open>_waypoints\<close> and
  \<^verbatim>\<open>_groups\<close> are the dictionaries of the scene, from identifier to item.\<close>

record node_item =
  item_pos :: "real \<times> real"
  node_data :: NodeData
  item_group_color :: "string option"
  item_color :: "string option"

record group_item =
  group_pos :: "real \<times> real"
  group_data :: GroupData

record scene =
  scene_nodes :: "string \<rightharpoonup> node_item"
  scene_waypoints :: "string \<rightharpoonup> node_item"
  scene_groups :: "string \<rightharpoonup> group_item"
  scene_edges :: "string \<rightharpoonup> EdgeData"
  scene_pipeline_color :: string
  scene_reference_color :: string
  is_undo_operation :: bool

text \<open>\<^verbatim>\<open>scene._nodes.get(node_id) or scene._waypoints.get(node_id)\<close>.\<close>

definition lookup_node :: "scene \<Rightarrow> string \<Rightarrow> node_item option" where
  "lookup_node sc nid =
     (case scene_nodes sc nid of Some n \<Rightarrow> Some n | None \<Rightarrow> scene_waypoints sc nid)"

text \<open>An assignment to an attribute of the item that the lookup above returned.\<close>

definition update_node :: "string \<Rightarrow> (node_item \<Rightarrow> node_item) \<Rightarrow> scene \<Rightarrow> scene" where
  "update_node nid f sc =
     (case scene_nodes sc nid of
        Some n \<Rightarrow> sc\<lparr>scene_nodes := (scene_nodes sc)(nid \<mapsto> f n)\<rparr>
      | None \<Rightarrow>
          (case scene_waypoints sc nid of
             Some w \<Rightarrow> sc\<lparr>scene_waypoints := (scene_waypoints sc)(nid \<mapsto> f w)\<rparr>
           | None \<Rightarrow> sc))"

text \<open>\<^verbatim>\<open>node.setPos(x, y)\<close> followed by the two assignments to
  \<^verbatim>\<open>node.node_data.position\<close>.\<close>

definition place_node :: "real \<Rightarrow> real \<Rightarrow> node_item \<Rightarrow> node_item" where
  "place_node vx vy n =
     n\<lparr>item_pos := (vx, vy), node_data := (node_data n)\<lparr>position := \<lparr>pos_x = vx, pos_y = vy\<rparr>\<rparr>\<rparr>"

text \<open>\<^verbatim>\<open>group.setPos(QPointF(x, y))\<close> followed by the two assignments to
  \<^verbatim>\<open>group.group_data.position\<close>.\<close>

definition place_group :: "real \<Rightarrow> real \<Rightarrow> group_item \<Rightarrow> group_item" where
  "place_group vx vy gi =
     gi\<lparr>group_pos := (vx, vy),
        group_data := (group_data gi)\<lparr>group_position := \<lparr>pos_x = vx, pos_y = vy\<rparr>\<rparr>\<rparr>"

text \<open>Modelled from the spec: \<^verbatim>\<open>scene.restore_node\<close>, which is missing from the sources:
  insert\_node of the Mutation Target. The item of the node is put under its identifier,
  at the position of its data.\<close>

definition restore_node :: "NodeData \<Rightarrow> scene \<Rightarrow> scene" where
  "restore_node nd sc =
     sc\<lparr>scene_nodes := (scene_nodes sc)(node_id nd \<mapsto>
          \<lparr>item_pos = (pos_x (position nd), pos_y (position nd)), node_data = nd,
           item_group_color = None, item_color = None\<rparr>)\<rparr>"

text \<open>Modelled from the spec: \<^verbatim>\<open>scene._remove_node_internal\<close>, which is missing from the
  sources: remove\_node of the Mutation Target. The node goes, and with it the edges
  that touch it.\<close>

definition remove_node_internal :: "string \<Rightarrow> scene \<Rightarrow> scene" where
  "remove_node_internal nid sc =
     sc\<lparr>scene_nodes := (scene_nodes sc)(nid := None),
        scene_edges := (\<lambda>k. case scene_edges sc k of
                              None \<Rightarrow> None
                            | Some e \<Rightarrow> if source_id e = nid \<or> target_id e = nid then None
                                        else Some e)\<rparr>"

text \<open>Modelled from the spec: \<^verbatim>\<open>scene._remove_waypoint_internal\<close>, which is missing from
  the sources: remove\_node of the Mutation Target, for a waypoint.\<close>

definition remove_waypoint_internal :: "string \<Rightarrow> scene \<Rightarrow> scene" where
  "remove_waypoint_internal nid sc =
     sc\<lparr>scene_waypoints := (scene_waypoints sc)(nid := None),
        scene_edges := (\<lambda>k. case scene_edges sc k of
                              None \<Rightarrow> None
                            | Some e \<Rightarrow> if source_id e = nid \<or> target_id e = nid then None
                                        else Some e)\<rparr>"

text \<open>Modelled from the spec: \<^verbatim>\<open>scene.restore_edge\<close>, which is missing from the sources:
  insert\_edge of the Mutation Target.\<close>

definition restore_edge :: "EdgeData \<Rightarrow> scene \<Rightarrow> scene" where
  "restore_edge ed sc = sc\<lparr>scene_edges := (scene_edges sc)(edge_id ed \<mapsto> ed)\<rparr>"

text \<open>Modelled from the spec: \<^verbatim>\<open>scene._remove_edge_internal\<close>, which is missing from the
  sources: remove\_edge of the Mutation Target.\<close>

definition remove_edge_internal :: "string \<Rightarrow> scene \<Rightarrow> scene" where
  "remove_edge_internal eid sc = sc\<lparr>scene_edges := (scene_edges sc)(eid := None)\<rparr>"

text \<open>Modelled from the spec: \<^verbatim>\<open>scene.restore_group\<close>, which is missing from the sources:
  insert\_group of the Mutation Target. The item of the group is put under its
  identifier, at the position of its data.\<close>

definition restore_group :: "GroupData \<Rightarrow> scene \<Rightarrow> scene" where
  "restore_group gd sc =
     sc\<lparr>scene_groups := (scene_groups sc)(group_id gd \<mapsto>
          \<lparr>group_pos = (pos_x (group_position gd), pos_y (group_position gd)),
           group_data = gd\<rparr>)\<rparr>"

text \<open>Modelled from the spec: \<^verbatim>\<open>scene.remove_group\<close>, which is missing from the sources:
  remove\_group of the Mutation Target.\<close>

definition remove_group :: "string \<Rightarrow> scene \<Rightarrow> scene" where
  "remove_group gid sc = sc\<lparr>scene_groups := (scene_groups sc)(gid := None)\<rparr>"

text \<open>Modelled from the spec: \<^verbatim>\<open>scene.set_edge_colors\<close>, which is missing from the
  sources: set\_edge\_colors of the Mutation Target.\<close>

definition scene_set_edge_colors :: "string \<Rightarrow> string \<Rightarrow> scene \<Rightarrow> scene" where
  "scene_set_edge_colors pipeline reference sc =
     sc\<lparr>scene_pipeline_color := pipeline, scene_reference_color := reference\<rparr>"

subsection \<open>Module palette\<close>

record palette =
  palette_colors :: "string \<rightharpoonup> string"
  waypoint_item_color :: string

text \<open>Modelled from the spec: \<^verbatim>\<open>module_palette.set_color_for_type\<close>, which is missing
  from the sources: set\_module\_color of the Mutation Target.\<close>

definition set_color_for_type :: "string \<Rightarrow> string \<Rightarrow> palette \<Rightarrow> palette" where
  "set_color_for_type mtype c p = p\<lparr>palette_colors := (palette_colors p)(mtype \<mapsto> c)\<rparr>"

subsection \<open>The context\<close>

text \<open>\<open>rng\<close> is the randomness behind \<^verbatim>\<open>generate_uuid\<close>; \<open>history\<close> is the file
  \<^verbatim>\<open>undo_history.json\<close> of the project directory.\<close>

record ctx =
  project_dock :: "dock option"
  scene :: "scene option"
  project_manager :: "ProjectManager option"
  module_palette :: "palette option"
  rng :: uuids
  history :: history_file


section \<open>Commands (undo.py)\<close>

text \<open>
  One constructor for each command class, with the fields of the dataclass in the order
  of their declaration, the \<^verbatim>\<open>context\<close> reference left out: the context is the state
  that \<open>Command_execute\<close> and \<open>Command_undo\<close> take and return. The last field of
  \<open>GroupMoveCommand\<close> is \<^verbatim>\<open>_first_execute\<close>; its \<^verbatim>\<open>child_positions\<close> is \<open>None\<close> or a
  dictionary from node identifier to position.
\<close>

datatype Command =
    DescriptionChangeCommand string string
  | TodoAddCommand string int
  | TodoRemoveCommand int string bool
  | TodoEditCommand int string string
  | TodoToggleCommand int bool
  | TodoMoveCommand int int
  | TagAddCommand string int
  | TagRemoveCommand string "string option" int
  | TagRenameCommand string string
  | TagColorChangeCommand string "string option" "string option"
  | TagMoveCommand int int
  | NodePositionCommand string real real real real
  | AddNodeCommand "(string \<times> json) list"
  | RemoveNodeCommand "(string \<times> json) list" "json list"
  | AddEdgeCommand "(string \<times> json) list"
  | RemoveEdgeCommand "(string \<times> json) list"
  | AddGroupCommand "(string \<times> json) list"
  | RemoveGroupCommand "(string \<times> json) list"
  | GroupMoveCommand string "real \<times> real" "real \<times> real" "(string \<times> real \<times> real) list option" bool
  | NodeGroupChangeCommand string "string option" "string option"
  | GlobalEdgeColorChangeCommand string string string string
  | ModulePaletteColorChangeCommand string string string

text \<open>\<^verbatim>\<open>if hasattr(self.context, 'project_dock'): self.context.project_dock.f(...)\<close>:
  without a dock nothing happens; an exception of the call leaves the dock as it was.\<close>

definition dock_step :: "Command \<Rightarrow> (dock \<Rightarrow> py_error + dock) \<Rightarrow> ctx \<Rightarrow> (py_error + Command) \<times> ctx" where
  "dock_step c f cx =
     (case project_dock cx of
        None \<Rightarrow> (Inr c, cx)
      | Some d \<Rightarrow>
          (case f d of
             Inl e \<Rightarrow> (Inl e, cx)
           | Inr d1 \<Rightarrow> (Inr c, cx\<lparr>project_dock := Some d1\<rparr>)))"

text \<open>\<^verbatim>\<open>if hasattr(self.context, 'scene'): ...\<close>: the block returns the scene it leaves
  behind and the exception that ended it, if any.\<close>

definition scene_step ::
  "Command \<Rightarrow> (scene \<Rightarrow> py_error option \<times> scene) \<Rightarrow> ctx \<Rightarrow> (py_error + Command) \<times> ctx" where
  "scene_step c f cx =
     (case scene cx of
        None \<Rightarrow> (Inr c, cx)
      | Some sc \<Rightarrow>
          (case f sc of
             (None, sc1) \<Rightarrow> (Inr c, cx\<lparr>scene := Some sc1\<rparr>)
           | (Some e, sc1) \<Rightarrow> (Inl e, cx\<lparr>scene := Some sc1\<rparr>)))"

text \<open>A dictionary assignment \<^verbatim>\<open>d[k] = v\<close>: an existing key keeps its place.\<close>

fun dict_set :: "string \<Rightarrow> 'a \<Rightarrow> (string \<times> 'a) list \<Rightarrow> (string \<times> 'a) list" where
  "dict_set k v [] = [(k, v)]"
| "dict_set k v (p # ps) = (if fst p = k then (k, v) # ps else p # dict_set k v ps)"

subsection \<open>Node and group removal blocks\<close>

text \<open>The \<^verbatim>\<open>try ... finally\<close> block shared by \<^verbatim>\<open>AddNodeCommand.undo\<close> and
  \<^verbatim>\<open>RemoveNodeCommand.execute\<close>. The identifier is looked up in two dictionaries, so an
  unhashable one raises \<^verbatim>\<open>TypeError\<close>, and one that is no string is in neither.\<close>

definition remove_node_block :: "(string \<times> json) list \<Rightarrow> scene \<Rightarrow> py_error option \<times> scene" where
  "remove_node_block node_data_dict sc =
     (let sc1 = sc\<lparr>is_undo_operation := True\<rparr>;
          r = try_bind (dict_item node_data_dict ''id'') (\<lambda>v.
                case v of
                  JStr nid \<Rightarrow>
                    if scene_nodes sc1 nid \<noteq> None then Inr (remove_node_internal nid sc1)
                    else if scene_waypoints sc1 nid \<noteq> None then Inr (remove_waypoint_internal nid sc1)
                    else Inr sc1
                | _ \<Rightarrow> if hashable v then Inr sc1 else Inl TypeError)
      in case r of
           Inl e \<Rightarrow> (Some e, sc1\<lparr>is_undo_operation := False\<rparr>)
         | Inr sc2 \<Rightarrow> (None, sc2\<lparr>is_undo_operation := False\<rparr>))"

text \<open>The \<^verbatim>\<open>try ... finally\<close> block shared by \<^verbatim>\<open>AddEdgeCommand.undo\<close> and
  \<^verbatim>\<open>RemoveEdgeCommand.execute\<close>.\<close>

definition remove_edge_block :: "(string \<times> json) list \<Rightarrow> scene \<Rightarrow> py_error option \<times> scene" where
  "remove_edge_block edge_data_dict sc =
     (let sc1 = sc\<lparr>is_undo_operation := True\<rparr>;
          r = try_bind (dict_item edge_data_dict ''id'') (\<lambda>v.
              try_bind (as_str v) (\<lambda>eid. Inr (remove_edge_internal eid sc1)))
      in case r of
           Inl e \<Rightarrow> (Some e, sc1\<lparr>is_undo_operation := False\<rparr>)
         | Inr sc2 \<Rightarrow> (None, sc2\<lparr>is_undo_operation := False\<rparr>))"

text \<open>\<^verbatim>\<open>self.context.scene.remove_group(self.group_data_dict['id'])\<close>.\<close>

definition remove_group_block :: "(string \<times> json) list \<Rightarrow> scene \<Rightarrow> py_error option \<times> scene" where
  "remove_group_block group_data_dict sc =
     (case try_bind (dict_item group_data_dict ''id'') as_str of
        Inl e \<Rightarrow> (Some e, sc)
      | Inr gid \<Rightarrow> (None, remove_group gid sc))"

text \<open>The blocks that rebuild an entity from its dictionary and hand it to the scene.
  \<^verbatim>\<open>from_dict\<close> draws identifiers from the randomness of the context.\<close>

definition restore_node_block :: "Command \<Rightarrow> (string \<times> json) list \<Rightarrow> ctx \<Rightarrow> (py_error + Command) \<times> ctx" where
  "restore_node_block c node_data_dict cx =
     (case scene cx of
        None \<Rightarrow> (Inr c, cx)
      | Some sc \<Rightarrow>
          (case NodeData_from_dict (JDict node_data_dict) (rng cx) of
             Inl e \<Rightarrow> (Inl e, cx)
           | Inr r \<Rightarrow> (Inr c, cx\<lparr>scene := Some (restore_node (fst r) sc), rng := snd r\<rparr>)))"

definition restore_edge_block :: "Command \<Rightarrow> (string \<times> json) list \<Rightarrow> ctx \<Rightarrow> (py_error + Command) \<times> ctx" where
  "restore_edge_block c edge_data_dict cx =
     (case scene cx of
        None \<Rightarrow> (Inr c, cx)
      | Some sc \<Rightarrow>
          (case EdgeData_from_dict (JDict edge_data_dict) (rng cx) of
             Inl e \<Rightarrow> (Inl e, cx)
           | Inr r \<Rightarrow> (Inr c, cx\<lparr>scene := Some (restore_edge (fst r) sc), rng := snd r\<rparr>)))"

definition restore_group_block :: "Command \<Rightarrow> (string \<times> json) list \<Rightarrow> ctx \<Rightarrow> (py_error + Command) \<times> ctx" where
  "restore_group_block c group_data_dict cx =
     (case scene cx of
        None \<Rightarrow> (Inr c, cx)
      | Some sc \<Rightarrow>
          (case GroupData_from_dict (JDict group_data_dict) (rng cx) of
             Inl e \<Rightarrow> (Inl e, cx)
           | Inr r \<Rightarrow> (Inr c, cx\<lparr>scene := Some (restore_group (fst r) sc), rng := snd r\<rparr>)))"

text \<open>The loop of \<^verbatim>\<open>RemoveNodeCommand.undo\<close> over \<^verbatim>\<open>connected_edges\<close>: an exception
  leaves the edges restored so far in the scene.\<close>

fun restore_edges :: "Command \<Rightarrow> json list \<Rightarrow> ctx \<Rightarrow> (py_error + Command) \<times> ctx" where
  "restore_edges c [] cx = (Inr c, cx)"
| "restore_edges c (edge_dict # rest) cx =
     (case EdgeData_from_dict edge_dict (rng cx) of
        Inl e \<Rightarrow> (Inl e, cx)
      | Inr r \<Rightarrow>
          restore_edges c rest
            (cx\<lparr>scene := map_option (restore_edge (fst r)) (scene cx), rng := snd r\<rparr>))"

definition RemoveNodeCommand_undo ::
  "Command \<Rightarrow> (string \<times> json) list \<Rightarrow> json list \<Rightarrow> ctx \<Rightarrow> (py_error + Command) \<times> ctx" where
  "RemoveNodeCommand_undo c node_data_dict connected_edges cx =
     (if scene cx = None then (Inr c, cx)
      else case restore_node_block c node_data_dict cx of
          (Inl e, cx1) \<Rightarrow> (Inl e, cx1)
        | (Inr c1, cx1) \<Rightarrow> restore_edges c connected_edges cx1)"


subsection \<open>GroupMoveCommand\<close>

text \<open>The loop of \<^verbatim>\<open>__post_init__\<close> over \<^verbatim>\<open>group.group_data.node_ids\<close>: for every contained
  node that the scene has, the position it had before the drag, which is its present
  position less the displacement of the group.\<close>

fun snapshot_children ::
  "real \<Rightarrow> real \<Rightarrow> string list \<Rightarrow> scene \<Rightarrow> (string \<times> real \<times> real) list \<Rightarrow> (string \<times> real \<times> real) list" where
  "snapshot_children dx dy [] sc acc = acc"
| "snapshot_children dx dy (nid # rest) sc acc =
     (case lookup_node sc nid of
        None \<Rightarrow> snapshot_children dx dy rest sc acc
      | Some n \<Rightarrow>
          snapshot_children dx dy rest sc
            (dict_set nid (fst (item_pos n) - dx, snd (item_pos n) - dy) acc))"

text \<open>\<^verbatim>\<open>__post_init__\<close>: the value of \<^verbatim>\<open>child_positions\<close> after construction.\<close>

definition post_init ::
  "ctx \<Rightarrow> string \<Rightarrow> real \<times> real \<Rightarrow> real \<times> real \<Rightarrow> (string \<times> real \<times> real) list option
     \<Rightarrow> (string \<times> real \<times> real) list option" where
  "post_init cx gid old_pos new_pos child_positions =
     (if child_positions = None \<and> scene cx \<noteq> None then
        (case scene cx of
           None \<Rightarrow> child_positions
         | Some sc \<Rightarrow>
             (case scene_groups sc gid of
                None \<Rightarrow> Some []
              | Some gi \<Rightarrow>
                  Some (snapshot_children (fst new_pos - fst old_pos) (snd new_pos - snd old_pos)
                          (node_ids (group_data gi)) sc [])))
      else child_positions)"


text \<open>The loop of \<^verbatim>\<open>_move_to\<close> over \<^verbatim>\<open>child_positions\<close>.\<close>

fun move_children :: "real \<Rightarrow> real \<Rightarrow> (string \<times> real \<times> real) list \<Rightarrow> scene \<Rightarrow> scene" where
  "move_children dx dy [] sc = sc"
| "move_children dx dy (child # rest) sc =
     move_children dx dy rest
       (update_node (fst child)
          (place_node (fst (snd child) + dx) (snd (snd child) + dy)) sc)"

definition move_to ::
  "string \<Rightarrow> real \<times> real \<Rightarrow> (string \<times> real \<times> real) list option \<Rightarrow> real \<times> real \<Rightarrow> ctx \<Rightarrow> ctx" where
  "move_to gid old_pos child_positions target_pos cx =
     (case scene cx of
        None \<Rightarrow> cx
      | Some sc \<Rightarrow>
          (case scene_groups sc gid of
             None \<Rightarrow> cx
           | Some gi \<Rightarrow>
               let sc1 = sc\<lparr>scene_groups := (scene_groups sc)(gid \<mapsto>
                              place_group (fst target_pos) (snd target_pos) gi)\<rparr>;
                   dx = fst target_pos - fst old_pos;
                   dy = snd target_pos - snd old_pos
               in cx\<lparr>scene := Some (move_children dx dy
                                      (case child_positions of None \<Rightarrow> [] | Some cps \<Rightarrow> cps) sc1)\<rparr>))"

subsection \<open>NodeGroupChangeCommand\<close>

text \<open>The truth value of an \<^verbatim>\<open>Optional[str]\<close>: \<^verbatim>\<open>None\<close> and the empty string are false.\<close>

definition truthy :: "string option \<Rightarrow> bool" where
  "truthy s = (case s of None \<Rightarrow> False | Some v \<Rightarrow> v \<noteq> [])"

text \<open>Modelled from the spec: \<^verbatim>\<open>node.set_group_color\<close>, which is missing from the sources.
  The item shows the colour of its group, or none.\<close>

definition set_group_color :: "string option \<Rightarrow> node_item \<Rightarrow> node_item" where
  "set_group_color c n = n\<lparr>item_group_color := c\<rparr>"

definition apply_grouping :: "string \<Rightarrow> string option \<Rightarrow> string option \<Rightarrow> scene \<Rightarrow> scene" where
  "apply_grouping nid from_group_id to_group_id sc =
     (let sc1 =
            (if truthy from_group_id then
               (case scene_groups sc (the from_group_id) of
                  None \<Rightarrow> sc
                | Some old_group \<Rightarrow>
                    if nid \<in> set (node_ids (group_data old_group))
                    then sc\<lparr>scene_groups := (scene_groups sc)(the from_group_id \<mapsto>
                            old_group\<lparr>group_data := (group_data old_group)
                              \<lparr>node_ids := remove1 nid (node_ids (group_data old_group))\<rparr>\<rparr>)\<rparr>
                    else sc)
             else sc);
          sc2 =
            (if truthy to_group_id then
               (case scene_groups sc1 (the to_group_id) of
                  None \<Rightarrow> sc1
                | Some new_group \<Rightarrow>
                    if nid \<notin> set (node_ids (group_data new_group))
                    then sc1\<lparr>scene_groups := (scene_groups sc1)(the to_group_id \<mapsto>
                            new_group\<lparr>group_data := (group_data new_group)
                              \<lparr>node_ids := node_ids (group_data new_group) @ [nid]\<rparr>\<rparr>)\<rparr>
                    else sc1)
             else sc1)
      in case lookup_node sc2 nid of
           None \<Rightarrow> sc2
         | Some node \<Rightarrow>
             if truthy to_group_id then
               (case scene_groups sc2 (the to_group_id) of
                  None \<Rightarrow> sc2
                | Some new_group \<Rightarrow>
                    update_node nid (set_group_color (Some (color (group_data new_group)))) sc2)
             else update_node nid (set_group_color None) sc2)"

subsection \<open>Colour commands\<close>

text \<open>The first step of \<^verbatim>\<open>_apply_colors\<close> and of \<^verbatim>\<open>ModulePaletteColorChangeCommand\<close>: an
  assignment into the data of the open project. With a project path but no project data
  the attribute access raises \<^verbatim>\<open>AttributeError\<close>.\<close>

definition update_project_data :: "(ProjectData \<Rightarrow> ProjectData) \<Rightarrow> ctx \<Rightarrow> py_error + ctx" where
  "update_project_data f cx =
     (case project_manager cx of
        None \<Rightarrow> Inr cx
      | Some pm \<Rightarrow>
          if is_project_open pm then
            (case project_data pm of
               None \<Rightarrow> Inl AttributeError
             | Some pd \<Rightarrow> Inr (cx\<lparr>project_manager := Some (pm\<lparr>project_data := Some (f pd)\<rparr>)\<rparr>))
          else Inr cx)"

text \<open>Modelled from the spec: \<^verbatim>\<open>module_palette.waypoint_item.set_color\<close>, which is missing
  from the sources. The waypoint entry of the palette shows the colour.\<close>

definition waypoint_item_set_color :: "string \<Rightarrow> palette \<Rightarrow> palette" where
  "waypoint_item_set_color c p = p\<lparr>waypoint_item_color := c\<rparr>"

definition apply_colors :: "Command \<Rightarrow> string \<Rightarrow> string \<Rightarrow> ctx \<Rightarrow> (py_error + Command) \<times> ctx" where
  "apply_colors c pipeline reference cx =
     (case update_project_data
             (\<lambda>pd. pd\<lparr>pipeline_edge_color := pipeline, reference_edge_color := reference\<rparr>) cx of
        Inl e \<Rightarrow> (Inl e, cx)
      | Inr cx1 \<Rightarrow>
          (Inr c,
           cx1\<lparr>project_dock := map_option (dock_set_edge_colors pipeline reference) (project_dock cx1),
               scene := map_option (scene_set_edge_colors pipeline reference) (scene cx1),
               module_palette := map_option (waypoint_item_set_color pipeline) (module_palette cx1)\<rparr>))"

text \<open>Modelled from the spec: \<^verbatim>\<open>group.set_color\<close>, which is missing from the sources. The
  group takes the colour.\<close>

definition group_set_color :: "string \<Rightarrow> group_item \<Rightarrow> group_item" where
  "group_set_color c gi = gi\<lparr>group_data := (group_data gi)\<lparr>color := c\<rparr>\<rparr>"

text \<open>Modelled from the spec: \<^verbatim>\<open>node.set_color\<close> and the test
  \<^verbatim>\<open>isinstance(node, PipelineModuleItem) and node.module_type == self.module_type\<close>, whose
  class is missing from the sources. A pipeline module item is the item of a node of type
  \<^verbatim>\<open>pipeline_module\<close>; its module type is that of its metadata.\<close>

definition recolor_module_item :: "string \<Rightarrow> string \<Rightarrow> node_item \<Rightarrow> node_item" where
  "recolor_module_item mtype c n =
     (if node_type (node_data n) = ''pipeline_module'' \<and> module_type (metadata (node_data n)) = mtype
      then n\<lparr>item_color := Some c\<rparr> else n)"

text \<open>The three steps that \<^verbatim>\<open>ModulePaletteColorChangeCommand.execute\<close> performs with the
  new colour and \<^verbatim>\<open>undo\<close> with the old one.\<close>

definition apply_module_color :: "Command \<Rightarrow> string \<Rightarrow> string \<Rightarrow> ctx \<Rightarrow> (py_error + Command) \<times> ctx" where
  "apply_module_color c mtype col cx =
     (case update_project_data
             (\<lambda>pd. pd\<lparr>module_colors := dict_set mtype (JStr col) (module_colors pd)\<rparr>) cx of
        Inl e \<Rightarrow> (Inl e, cx)
      | Inr cx1 \<Rightarrow>
          (Inr c,
           cx1\<lparr>module_palette := map_option (set_color_for_type mtype col) (module_palette cx1),
               scene := map_option
                 (\<lambda>sc. sc\<lparr>scene_groups :=
                            (if mtype = ''group''
                             then (\<lambda>k. map_option (group_set_color col) (scene_groups sc k))
                             else scene_groups sc),
                          scene_nodes := (\<lambda>k. map_option (recolor_module_item mtype col) (scene_nodes sc k))\<rparr>)
                 (scene cx1)\<rparr>))"


subsection \<open>execute and undo\<close>

fun Command_execute :: "Command \<Rightarrow> ctx \<Rightarrow> (py_error + Command) \<times> ctx" where
  "Command_execute (DescriptionChangeCommand old_value new_value) cx =
     dock_step (DescriptionChangeCommand old_value new_value)
       (\<lambda>d. Inr (set_description new_value d)) cx"
| "Command_execute (TodoAddCommand todo_text todo_index) cx =
     dock_step (TodoAddCommand todo_text todo_index) (\<lambda>d. Inr (add_todo todo_text d)) cx"
| "Command_execute (TodoRemoveCommand todo_index todo_text is_done) cx =
     dock_step (TodoRemoveCommand todo_index todo_text is_done) (remove_todo_at todo_index) cx"
| "Command_execute (TodoEditCommand todo_index old_text new_text) cx =
     dock_step (TodoEditCommand todo_index old_text new_text)
       (update_todo_text todo_index new_text) cx"
| "Command_execute (TodoToggleCommand todo_index new_state) cx =
     dock_step (TodoToggleCommand todo_index new_state)
       (set_todo_status todo_index new_state) cx"
| "Command_execute (TodoMoveCommand from_index to_index) cx =
     dock_step (TodoMoveCommand from_index to_index) (move_todo from_index to_index) cx"
| "Command_execute (TagAddCommand tag_name tag_index) cx =
     (case project_dock cx of
        None \<Rightarrow> (Inr (TagAddCommand tag_name tag_index), cx)
      | Some d \<Rightarrow>
          (case insert_tag (int (length (dock_tags d))) tag_name None d of
             Inl e \<Rightarrow> (Inl e, cx)
           | Inr d1 \<Rightarrow>
               (Inr (TagAddCommand tag_name (int (length (dock_tags d1)) - 1)),
                cx\<lparr>project_dock := Some d1\<rparr>)))"
| "Command_execute (TagRemoveCommand tag_name tag_color tag_index) cx =
     dock_step (TagRemoveCommand tag_name tag_color tag_index)
       (\<lambda>d. Inr (remove_tag_by_name tag_name d)) cx"
| "Command_execute (TagRenameCommand old_name new_name) cx =
     dock_step (TagRenameCommand old_name new_name)
       (\<lambda>d. Inr (rename_tag_item old_name new_name d)) cx"
| "Command_execute (TagColorChangeCommand tag_name old_color new_color) cx =
     dock_step (TagColorChangeCommand tag_name old_color new_color)
       (\<lambda>d. Inr (set_tag_color tag_name new_color d)) cx"
| "Command_execute (TagMoveCommand from_index to_index) cx =
     dock_step (TagMoveCommand from_index to_index) (move_tag from_index to_index) cx"
| "Command_execute (NodePositionCommand nid old_x old_y new_x new_y) cx =
     scene_step (NodePositionCommand nid old_x old_y new_x new_y)
       (\<lambda>sc. (None, update_node nid (place_node new_x new_y) sc)) cx"
| "Command_execute (AddNodeCommand node_data_dict) cx =
     restore_node_block (AddNodeCommand node_data_dict) node_data_dict cx"
| "Command_execute (RemoveNodeCommand node_data_dict connected_edges) cx =
     scene_step (RemoveNodeCommand node_data_dict connected_edges)
       (remove_node_block node_data_dict) cx"
| "Command_execute (AddEdgeCommand edge_data_dict) cx =
     restore_edge_block (AddEdgeCommand edge_data_dict) edge_data_dict cx"
| "Command_execute (RemoveEdgeCommand edge_data_dict) cx =
     scene_step (RemoveEdgeCommand edge_data_dict) (remove_edge_block edge_data_dict) cx"
| "Command_execute (AddGroupCommand group_data_dict) cx =
     restore_group_block (AddGroupCommand group_data_dict) group_data_dict cx"
| "Command_execute (RemoveGroupCommand group_data_dict) cx =
     scene_step (RemoveGroupCommand group_data_dict) (remove_group_block group_data_dict) cx"
| "Command_execute (GroupMoveCommand gid old_pos new_pos child_positions first_execute) cx =
     (if first_execute then (Inr (GroupMoveCommand gid old_pos new_pos child_positions False), cx)
      else (Inr (GroupMoveCommand gid old_pos new_pos child_positions first_execute),
            move_to gid old_pos child_positions new_pos cx))"
| "Command_execute (NodeGroupChangeCommand nid old_group_id new_group_id) cx =
     scene_step (NodeGroupChangeCommand nid old_group_id new_group_id)
       (\<lambda>sc. (None, apply_grouping nid old_group_id new_group_id sc)) cx"
| "Command_execute (GlobalEdgeColorChangeCommand old_pipeline old_reference new_pipeline new_reference) cx =
     apply_colors (GlobalEdgeColorChangeCommand old_pipeline old_reference new_pipeline new_reference)
       new_pipeline new_reference cx"
| "Command_execute (ModulePaletteColorChangeCommand mtype old_color new_color) cx =
     apply_module_color (ModulePaletteColorChangeCommand mtype old_color new_color)
       mtype new_color cx"

fun Command_undo :: "Command \<Rightarrow> ctx \<Rightarrow> (py_error + Command) \<times> ctx" where
  "Command_undo (DescriptionChangeCommand old_value new_value) cx =
     dock_step (DescriptionChangeCommand old_value new_value)
       (\<lambda>d. Inr (set_description old_value d)) cx"
| "Command_undo (TodoAddCommand todo_text todo_index) cx =
     dock_step (TodoAddCommand todo_text todo_index) (remove_todo_at todo_index) cx"
| "Command_undo (TodoRemoveCommand todo_index todo_text is_done) cx =
     dock_step (TodoRemoveCommand todo_index todo_text is_done)
       (insert_todo todo_index todo_text is_done) cx"
| "Command_undo (TodoEditCommand todo_index old_text new_text) cx =
     dock_step (TodoEditCommand todo_index old_text new_text)
       (update_todo_text todo_index old_text) cx"
| "Command_undo (TodoToggleCommand todo_index new_state) cx =
     dock_step (TodoToggleCommand todo_index new_state)
       (set_todo_status todo_index (\<not> new_state)) cx"
| "Command_undo (TodoMoveCommand from_index to_index) cx =
     dock_step (TodoMoveCommand from_index to_index) (move_todo to_index from_index) cx"
| "Command_undo (TagAddCommand tag_name tag_index) cx =
     dock_step (TagAddCommand tag_name tag_index) (\<lambda>d. Inr (remove_tag_by_name tag_name d)) cx"
| "Command_undo (TagRemoveCommand tag_name tag_color tag_index) cx =
     dock_step (TagRemoveCommand tag_name tag_color tag_index)
       (insert_tag tag_index tag_name tag_color) cx"
| "Command_undo (TagRenameCommand old_name new_name) cx =
     dock_step (TagRenameCommand old_name new_name)
       (\<lambda>d. Inr (rename_tag_item new_name old_name d)) cx"
| "Command_undo (TagColorChangeCommand tag_name old_color new_color) cx =
     dock_step (TagColorChangeCommand tag_name old_color new_color)
       (\<lambda>d. Inr (set_tag_color tag_name old_color d)) cx"
| "Command_undo (TagMoveCommand from_index to_index) cx =
     dock_step (TagMoveCommand from_index to_index) (move_tag to_index from_index) cx"
| "Command_undo (NodePositionCommand nid old_x old_y new_x new_y) cx =
     scene_step (NodePositionCommand nid old_x old_y new_x new_y)
       (\<lambda>sc. (None, update_node nid (place_node old_x old_y) sc)) cx"
| "Command_undo (AddNodeCommand node_data_dict) cx =
     scene_step (AddNodeCommand node_data_dict) (remove_node_block node_data_dict) cx"
| "Command_undo (RemoveNodeCommand node_data_dict connected_edges) cx =
     RemoveNodeCommand_undo (RemoveNodeCommand node_data_dict connected_edges)
       node_data_dict connected_edges cx"
| "Command_undo (AddEdgeCommand edge_data_dict) cx =
     scene_step (AddEdgeCommand edge_data_dict) (remove_edge_block edge_data_dict) cx"
| "Command_undo (RemoveEdgeCommand edge_data_dict) cx =
     restore_edge_block (RemoveEdgeCommand edge_data_dict) edge_data_dict cx"
| "Command_undo (AddGroupCommand group_data_dict) cx =
     scene_step (AddGroupCommand group_data_dict) (remove_group_block group_data_dict) cx"
| "Command_undo (RemoveGroupCommand group_data_dict) cx =
     restore_group_block (RemoveGroupCommand group_data_dict) group_data_dict cx"
| "Command_undo (GroupMoveCommand gid old_pos new_pos child_positions first_execute) cx =
     (Inr (GroupMoveCommand gid old_pos new_pos child_positions first_execute),
      move_to gid old_pos child_positions old_pos cx)"
| "Command_undo (NodeGroupChangeCommand nid old_group_id new_group_id) cx =
     scene_step (NodeGroupChangeCommand nid old_group_id new_group_id)
       (\<lambda>sc. (None, apply_grouping nid new_group_id old_group_id sc)) cx"
| "Command_undo (GlobalEdgeColorChangeCommand old_pipeline old_reference new_pipeline new_reference) cx =
     apply_colors (GlobalEdgeColorChangeCommand old_pipeline old_reference new_pipeline new_reference)
       old_pipeline old_reference cx"
| "Command_undo (ModulePaletteColorChangeCommand mtype old_color new_color) cx =
     apply_module_color (ModulePaletteColorChangeCommand mtype old_color new_color)
       mtype old_color cx"


subsection \<open>Serialization\<close>

definition opt_str_json :: "string option \<Rightarrow> json" where
  "opt_str_json s = (case s of None \<Rightarrow> JNull | Some v \<Rightarrow> JStr v)"

definition pos_json :: "real \<times> real \<Rightarrow> json" where
  "pos_json p = JList [JFloat (fst p), JFloat (snd p)]"

fun Command_to_dict :: "Command \<Rightarrow> json" where
  "Command_to_dict (DescriptionChangeCommand old_value new_value) = JDict
     [(''type'', JStr ''DescriptionChange''), (''old_value'', JStr old_value),
      (''new_value'', JStr new_value)]"
| "Command_to_dict (TodoAddCommand todo_text todo_index) = JDict
     [(''type'', JStr ''TodoAdd''), (''todo_text'', JStr todo_text),
      (''todo_index'', JInt todo_index)]"
| "Command_to_dict (TodoRemoveCommand todo_index todo_text is_done) = JDict
     [(''type'', JStr ''TodoRemove''), (''todo_index'', JInt todo_index),
      (''todo_text'', JStr todo_text), (''is_done'', JBool is_done)]"
| "Command_to_dict (TodoEditCommand todo_index old_text new_text) = JDict
     [(''type'', JStr ''TodoEdit''), (''todo_index'', JInt todo_index),
      (''old_text'', JStr old_text), (''new_text'', JStr new_text)]"
| "Command_to_dict (TodoToggleCommand todo_index new_state) = JDict
     [(''type'', JStr ''TodoToggle''), (''todo_index'', JInt todo_index),
      (''new_state'', JBool new_state)]"
| "Command_to_dict (TodoMoveCommand from_index to_index) = JDict
     [(''type'', JStr ''TodoMove''), (''from_index'', JInt from_index),
      (''to_index'', JInt to_index)]"
| "Command_to_dict (TagAddCommand tag_name tag_index) = JDict
     [(''type'', JStr ''TagAdd''), (''tag_name'', JStr tag_name), (''tag_index'', JInt tag_index)]"
| "Command_to_dict (TagRemoveCommand tag_name tag_color tag_index) = JDict
     [(''type'', JStr ''TagRemove''), (''tag_name'', JStr tag_name),
      (''tag_color'', opt_str_json tag_color), (''tag_index'', JInt tag_index)]"
| "Command_to_dict (TagRenameCommand old_name new_name) = JDict
     [(''type'', JStr ''TagRename''), (''old_name'', JStr old_name), (''new_name'', JStr new_name)]"
| "Command_to_dict (TagColorChangeCommand tag_name old_color new_color) = JDict
     [(''type'', JStr ''TagColorChange''), (''tag_name'', JStr tag_name),
      (''old_color'', opt_str_json old_color), (''new_color'', opt_str_json new_color)]"
| "Command_to_dict (TagMoveCommand from_index to_index) = JDict
     [(''type'', JStr ''TagMove''), (''from_index'', JInt from_index),
      (''to_index'', JInt to_index)]"
| "Command_to_dict (NodePositionCommand nid old_x old_y new_x new_y) = JDict
     [(''type'', JStr ''NodePosition''), (''node_id'', JStr nid),
      (''old_x'', JFloat old_x), (''old_y'', JFloat old_y),
      (''new_x'', JFloat new_x), (''new_y'', JFloat new_y)]"
| "Command_to_dict (AddNodeCommand node_data_dict) = JDict
     [(''type'', JStr ''AddNode''), (''node_data_dict'', JDict node_data_dict)]"
| "Command_to_dict (RemoveNodeCommand node_data_dict connected_edges) = JDict
     [(''type'', JStr ''RemoveNode''), (''node_data_dict'', JDict node_data_dict),
      (''connected_edges'', JList connected_edges)]"
| "Command_to_dict (AddEdgeCommand edge_data_dict) = JDict
     [(''type'', JStr ''AddEdge''), (''edge_data_dict'', JDict edge_data_dict)]"
| "Command_to_dict (RemoveEdgeCommand edge_data_dict) = JDict
     [(''type'', JStr ''RemoveEdge''), (''edge_data_dict'', JDict edge_data_dict)]"
| "Command_to_dict (AddGroupCommand group_data_dict) = JDict
     [(''type'', JStr ''AddGroup''), (''group_data_dict'', JDict group_data_dict)]"
| "Command_to_dict (RemoveGroupCommand group_data_dict) = JDict
     [(''type'', JStr ''RemoveGroup''), (''group_data_dict'', JDict group_data_dict)]"
| "Command_to_dict (GroupMoveCommand gid old_pos new_pos child_positions first_execute) = JDict
     [(''type'', JStr ''GroupMove''), (''group_id'', JStr gid),
      (''old_pos'', pos_json old_pos), (''new_pos'', pos_json new_pos),
      (''child_positions'',
         (case child_positions of
            None \<Rightarrow> JNull
          | Some cps \<Rightarrow> JDict (map (\<lambda>child. (fst child, pos_json (snd child))) cps)))]"
| "Command_to_dict (NodeGroupChangeCommand nid old_group_id new_group_id) = JDict
     [(''type'', JStr ''NodeGroupChange''), (''node_id'', JStr nid),
      (''old_group_id'', opt_str_json old_group_id),
      (''new_group_id'', opt_str_json new_group_id)]"
| "Command_to_dict (GlobalEdgeColorChangeCommand old_pipeline old_reference new_pipeline new_reference) = JDict
     [(''type'', JStr ''GlobalEdgeColorChange''),
      (''old_pipeline_color'', JStr old_pipeline), (''old_reference_color'', JStr old_reference),
      (''new_pipeline_color'', JStr new_pipeline), (''new_reference_color'', JStr new_reference)]"
| "Command_to_dict (ModulePaletteColorChangeCommand mtype old_color new_color) = JDict
     [(''type'', JStr ''ModulePaletteColorChange''), (''module_type'', JStr mtype),
      (''old_color'', JStr old_color), (''new_color'', JStr new_color)]"

text \<open>\<^verbatim>\<open>data[key]\<close> on an arbitrary value: a missing key of a dictionary is a
  \<^verbatim>\<open>KeyError\<close>, and no other value can be subscripted with a string.\<close>

definition py_item :: "json \<Rightarrow> string \<Rightarrow> py_error + json" where
  "py_item data k = (case data of JDict d \<Rightarrow> dict_item d k | _ \<Rightarrow> Inl TypeError)"

definition as_opt_str :: "json \<Rightarrow> py_error + string option" where
  "as_opt_str v = (case v of JNull \<Rightarrow> Inr None | JStr s \<Rightarrow> Inr (Some s) | _ \<Rightarrow> Inl IllTyped)"

definition as_list :: "json \<Rightarrow> py_error + json list" where
  "as_list v = (case v of JList xs \<Rightarrow> Inr xs | _ \<Rightarrow> Inl IllTyped)"

text \<open>A position list \<^verbatim>\<open>[x, y]\<close> as a pair of numbers.\<close>

definition as_pos :: "json \<Rightarrow> py_error + real \<times> real" where
  "as_pos v = (case v of
       JList [a, b] \<Rightarrow> try_bind (as_float a) (\<lambda>vx. try_bind (as_float b) (\<lambda>vy. Inr (vx, vy)))
     | _ \<Rightarrow> Inl IllTyped)"

text \<open>\<^verbatim>\<open>tuple(data[key])\<close>: a value that cannot be iterated raises \<^verbatim>\<open>TypeError\<close>.\<close>

definition tuple_pos :: "json \<Rightarrow> py_error + real \<times> real" where
  "tuple_pos v = try_bind (py_iter v) (\<lambda>items. as_pos v)"

text \<open>\<^verbatim>\<open>data.get("child_positions", {})\<close>: \<^verbatim>\<open>null\<close> is \<^verbatim>\<open>None\<close>; a dictionary maps node
  identifiers to position lists.\<close>

definition as_child_positions :: "json \<Rightarrow> py_error + (string \<times> real \<times> real) list option" where
  "as_child_positions v = (case v of
       JNull \<Rightarrow> Inr None
     | JDict d \<Rightarrow>
         if distinct (map fst d)
         then try_bind (try_map (\<lambda>kv. try_bind (as_pos (snd kv)) (\<lambda>p. Inr (fst kv, p))) d)
                (\<lambda>cps. Inr (Some cps))
         else Inl IllTyped
     | _ \<Rightarrow> Inl IllTyped)"

text \<open>\<^verbatim>\<open>data[key]\<close> decoded at the type of the field.\<close>

definition field :: "json \<Rightarrow> string \<Rightarrow> (json \<Rightarrow> py_error + 'a) \<Rightarrow> py_error + 'a" where
  "field data k dec = try_bind (py_item data k) dec"


text \<open>The \<^verbatim>\<open>from_dict\<close> class methods. A key read with \<^verbatim>\<open>data[key]\<close> must be there; a
  key read with \<^verbatim>\<open>data.get\<close> has a default.\<close>

definition DescriptionChangeCommand_from_dict :: "json \<Rightarrow> ctx \<Rightarrow> py_error + Command" where
  "DescriptionChangeCommand_from_dict data cx =
     try_bind (field data ''old_value'' as_str) (\<lambda>old_value.
     try_bind (field data ''new_value'' as_str) (\<lambda>new_value.
       Inr (DescriptionChangeCommand old_value new_value)))"

definition TodoAddCommand_from_dict :: "json \<Rightarrow> ctx \<Rightarrow> py_error + Command" where
  "TodoAddCommand_from_dict data cx =
     try_bind (field data ''todo_text'' as_str) (\<lambda>todo_text.
     try_bind (field data ''todo_index'' as_int) (\<lambda>todo_index.
       Inr (TodoAddCommand todo_text todo_index)))"

definition TodoRemoveCommand_from_dict :: "json \<Rightarrow> ctx \<Rightarrow> py_error + Command" where
  "TodoRemoveCommand_from_dict data cx =
     try_bind (field data ''todo_index'' as_int) (\<lambda>todo_index.
     try_bind (field data ''todo_text'' as_str) (\<lambda>todo_text.
     try_bind (field data ''is_done'' as_bool) (\<lambda>is_done.
       Inr (TodoRemoveCommand todo_index todo_text is_done))))"

definition TodoEditCommand_from_dict :: "json \<Rightarrow> ctx \<Rightarrow> py_error + Command" where
  "TodoEditCommand_from_dict data cx =
     try_bind (field data ''todo_index'' as_int) (\<lambda>todo_index.
     try_bind (field data ''old_text'' as_str) (\<lambda>old_text.
     try_bind (field data ''new_text'' as_str) (\<lambda>new_text.
       Inr (TodoEditCommand todo_index old_text new_text))))"

definition TodoToggleCommand_from_dict :: "json \<Rightarrow> ctx \<Rightarrow> py_error + Command" where
  "TodoToggleCommand_from_dict data cx =
     try_bind (field data ''todo_index'' as_int) (\<lambda>todo_index.
     try_bind (field data ''new_state'' as_bool) (\<lambda>new_state.
       Inr (TodoToggleCommand todo_index new_state)))"

definition TodoMoveCommand_from_dict :: "json \<Rightarrow> ctx \<Rightarrow> py_error + Command" where
  "TodoMoveCommand_from_dict data cx =
     try_bind (field data ''from_index'' as_int) (\<lambda>from_index.
     try_bind (field data ''to_index'' as_int) (\<lambda>to_index.
       Inr (TodoMoveCommand from_index to_index)))"

definition TagAddCommand_from_dict :: "json \<Rightarrow> ctx \<Rightarrow> py_error + Command" where
  "TagAddCommand_from_dict data cx =
     try_bind (field data ''tag_name'' as_str) (\<lambda>tag_name.
     try_bind (try_bind (py_get data ''tag_index'' (JInt (- 1))) as_int) (\<lambda>tag_index.
       Inr (TagAddCommand tag_name tag_index)))"

definition TagRemoveCommand_from_dict :: "json \<Rightarrow> ctx \<Rightarrow> py_error + Command" where
  "TagRemoveCommand_from_dict data cx =
     try_bind (field data ''tag_name'' as_str) (\<lambda>tag_name.
     try_bind (field data ''tag_color'' as_opt_str) (\<lambda>tag_color.
     try_bind (field data ''tag_index'' as_int) (\<lambda>tag_index.
       Inr (TagRemoveCommand tag_name tag_color tag_index))))"

definition TagRenameCommand_from_dict :: "json \<Rightarrow> ctx \<Rightarrow> py_error + Command" where
  "TagRenameCommand_from_dict data cx =
     try_bind (field data ''old_name'' as_str) (\<lambda>old_name.
     try_bind (field data ''new_name'' as_str) (\<lambda>new_name.
       Inr (TagRenameCommand old_name new_name)))"

definition TagColorChangeCommand_from_dict :: "json \<Rightarrow> ctx \<Rightarrow> py_error + Command" where
  "TagColorChangeCommand_from_dict data cx =
     try_bind (field data ''tag_name'' as_str) (\<lambda>tag_name.
     try_bind (field data ''old_color'' as_opt_str) (\<lambda>old_color.
     try_bind (field data ''new_color'' as_opt_str) (\<lambda>new_color.
       Inr (TagColorChangeCommand tag_name old_color new_color))))"

definition TagMoveCommand_from_dict :: "json \<Rightarrow> ctx \<Rightarrow> py_error + Command" where
  "TagMoveCommand_from_dict data cx =
     try_bind (field data ''from_index'' as_int) (\<lambda>from_index.
     try_bind (field data ''to_index'' as_int) (\<lambda>to_index.
       Inr (TagMoveCommand from_index to_index)))"

definition NodePositionCommand_from_dict :: "json \<Rightarrow> ctx \<Rightarrow> py_error + Command" where
  "NodePositionCommand_from_dict data cx =
     try_bind (field data ''node_id'' as_str) (\<lambda>nid.
     try_bind (field data ''old_x'' as_float) (\<lambda>old_x.
     try_bind (field data ''old_y'' as_float) (\<lambda>old_y.
     try_bind (field data ''new_x'' as_float) (\<lambda>new_x.
     try_bind (field data ''new_y'' as_float) (\<lambda>new_y.
       Inr (NodePositionCommand nid old_x old_y new_x new_y))))))"

definition AddNodeCommand_from_dict :: "json \<Rightarrow> ctx \<Rightarrow> py_error + Command" where
  "AddNodeCommand_from_dict data cx =
     try_bind (field data ''node_data_dict'' as_dict) (\<lambda>d. Inr (AddNodeCommand d))"

definition RemoveNodeCommand_from_dict :: "json \<Rightarrow> ctx \<Rightarrow> py_error + Command" where
  "RemoveNodeCommand_from_dict data cx =
     try_bind (field data ''node_data_dict'' as_dict) (\<lambda>d.
     try_bind (field data ''connected_edges'' as_list) (\<lambda>connected_edges.
       Inr (RemoveNodeCommand d connected_edges)))"

definition AddEdgeCommand_from_dict :: "json \<Rightarrow> ctx \<Rightarrow> py_error + Command" where
  "AddEdgeCommand_from_dict data cx =
     try_bind (field data ''edge_data_dict'' as_dict) (\<lambda>d. Inr (AddEdgeCommand d))"

definition RemoveEdgeCommand_from_dict :: "json \<Rightarrow> ctx \<Rightarrow> py_error + Command" where
  "RemoveEdgeCommand_from_dict data cx =
     try_bind (field data ''edge_data_dict'' as_dict) (\<lambda>d. Inr (RemoveEdgeCommand d))"

definition AddGroupCommand_from_dict :: "json \<Rightarrow> ctx \<Rightarrow> py_error + Command" where
  "AddGroupCommand_from_dict data cx =
     try_bind (field data ''group_data_dict'' as_dict) (\<lambda>d. Inr (AddGroupCommand d))"

definition RemoveGroupCommand_from_dict :: "json \<Rightarrow> ctx \<Rightarrow> py_error + Command" where
  "RemoveGroupCommand_from_dict data cx =
     try_bind (field data ''group_data_dict'' as_dict) (\<lambda>d. Inr (RemoveGroupCommand d))"

text \<open>\<^verbatim>\<open>GroupMoveCommand.from_dict\<close>: the constructor runs \<^verbatim>\<open>__post_init__\<close>, then the
  first-execute flag is cleared.\<close>

definition GroupMoveCommand_from_dict :: "json \<Rightarrow> ctx \<Rightarrow> py_error + Command" where
  "GroupMoveCommand_from_dict data cx =
     try_bind (field data ''group_id'' as_str) (\<lambda>gid.
     try_bind (field data ''old_pos'' tuple_pos) (\<lambda>old_pos.
     try_bind (field data ''new_pos'' tuple_pos) (\<lambda>new_pos.
     try_bind (try_bind (py_get data ''child_positions'' (JDict [])) as_child_positions)
       (\<lambda>child_positions.
       Inr (GroupMoveCommand gid old_pos new_pos
              (post_init cx gid old_pos new_pos child_positions) False)))))"

definition NodeGroupChangeCommand_from_dict :: "json \<Rightarrow> ctx \<Rightarrow> py_error + Command" where
  "NodeGroupChangeCommand_from_dict data cx =
     try_bind (field data ''node_id'' as_str) (\<lambda>nid.
     try_bind (try_bind (py_get data ''old_group_id'' JNull) as_opt_str) (\<lambda>old_group_id.
     try_bind (try_bind (py_get data ''new_group_id'' JNull) as_opt_str) (\<lambda>new_group_id.
       Inr (NodeGroupChangeCommand nid old_group_id new_group_id))))"

definition GlobalEdgeColorChangeCommand_from_dict :: "json \<Rightarrow> ctx \<Rightarrow> py_error + Command" where
  "GlobalEdgeColorChangeCommand_from_dict data cx =
     try_bind (field data ''old_pipeline_color'' as_str) (\<lambda>old_pipeline.
     try_bind (field data ''old_reference_color'' as_str) (\<lambda>old_reference.
     try_bind (field data ''new_pipeline_color'' as_str) (\<lambda>new_pipeline.
     try_bind (field data ''new_reference_color'' as_str) (\<lambda>new_reference.
       Inr (GlobalEdgeColorChangeCommand old_pipeline old_reference new_pipeline new_reference)))))"

definition ModulePaletteColorChangeCommand_from_dict :: "json \<Rightarrow> ctx \<Rightarrow> py_error + Command" where
  "ModulePaletteColorChangeCommand_from_dict data cx =
     try_bind (field data ''module_type'' as_str) (\<lambda>mtype.
     try_bind (field data ''old_color'' as_str) (\<lambda>old_color.
     try_bind (field data ''new_color'' as_str) (\<lambda>new_color.
       Inr (ModulePaletteColorChangeCommand mtype old_color new_color))))"

text \<open>The dictionary \<^verbatim>\<open>command_classes\<close> of \<^verbatim>\<open>_deserialize_command\<close>.\<close>

definition command_classes_table :: "(string \<times> (json \<Rightarrow> ctx \<Rightarrow> py_error + Command)) list" where
  "command_classes_table =
     [(''DescriptionChange'', DescriptionChangeCommand_from_dict),
      (''TodoAdd'', TodoAddCommand_from_dict),
      (''TodoRemove'', TodoRemoveCommand_from_dict),
      (''TodoEdit'', TodoEditCommand_from_dict),
      (''TodoToggle'', TodoToggleCommand_from_dict),
      (''TodoMove'', TodoMoveCommand_from_dict),
      (''TagAdd'', TagAddCommand_from_dict),
      (''TagRemove'', TagRemoveCommand_from_dict),
      (''TagRename'', TagRenameCommand_from_dict),
      (''TagColorChange'', TagColorChangeCommand_from_dict),
      (''TagMove'', TagMoveCommand_from_dict),
      (''NodePosition'', NodePositionCommand_from_dict),
      (''AddNode'', AddNodeCommand_from_dict),
      (''RemoveNode'', RemoveNodeCommand_from_dict),
      (''AddEdge'', AddEdgeCommand_from_dict),
      (''RemoveEdge'', RemoveEdgeCommand_from_dict),
      (''AddGroup'', AddGroupCommand_from_dict),
      (''RemoveGroup'', RemoveGroupCommand_from_dict),
      (''GroupMove'', GroupMoveCommand_from_dict),
      (''NodeGroupChange'', NodeGroupChangeCommand_from_dict),
      (''GlobalEdgeColorChange'', GlobalEdgeColorChangeCommand_from_dict),
      (''ModulePaletteColorChange'', ModulePaletteColorChangeCommand_from_dict)]"

subsection \<open>Replaying a group move\<close>




section \<open>UndoManager (undo.py)\<close>

text \<open>
  The manager is generic in the commands it stores. What a command does is given by
  \<open>hooks\<close>: \<open>cmd_execute\<close> and \<open>cmd_undo\<close> run the command against the Mutation
  Target state \<open>'s\<close> and return the target state they leave behind together with either
  the exception they raised or the command as it is afterwards (a command object may
  update its own fields). \<open>command_classes\<close> is the registry of
  \<^verbatim>\<open>_deserialize_command\<close>; \<open>project_open\<close>, \<open>write_history\<close> and \<open>read_history\<close>
  are the project directory as the manager sees it through its context.
\<close>

record ('c, 's) hooks =
  cmd_execute :: "'c \<Rightarrow> 's \<Rightarrow> (py_error + 'c) \<times> 's"
  cmd_undo :: "'c \<Rightarrow> 's \<Rightarrow> (py_error + 'c) \<times> 's"
  cmd_to_dict :: "'c \<Rightarrow> json"
  command_classes :: "(string \<times> (json \<Rightarrow> 's \<Rightarrow> py_error + 'c)) list"
  project_open :: "'s \<Rightarrow> bool"
  write_history :: "json \<Rightarrow> 's \<Rightarrow> 's"
  read_history :: "'s \<Rightarrow> history_file"

record 'c UndoManager =
  undo_stack :: "'c list"
  redo_stack :: "'c list"
  is_undoing :: bool

definition MAX_HISTORY :: nat where
  "MAX_HISTORY = 100"

definition init_manager :: "'c UndoManager" where
  "init_manager = \<lparr>undo_stack = [], redo_stack = [], is_undoing = False\<rparr>"

definition save_to_file :: "('c, 's) hooks \<Rightarrow> 'c UndoManager \<Rightarrow> 's \<Rightarrow> 's" where
  "save_to_file h m s =
     write_history h
       (JDict [(''undo_stack'', JList (map (cmd_to_dict h) (undo_stack m))),
               (''redo_stack'', JList (map (cmd_to_dict h) (redo_stack m)))]) s"

definition save_history_if_possible :: "('c, 's) hooks \<Rightarrow> 'c UndoManager \<Rightarrow> 's \<Rightarrow> 's" where
  "save_history_if_possible h m s = (if project_open h s then save_to_file h m s else s)"

text \<open>\<^verbatim>\<open>UndoManager.execute\<close>. The result is the exception that escaped, if any, the
  manager and the target state.\<close>

definition execute ::
  "('c, 's) hooks \<Rightarrow> 'c \<Rightarrow> 'c UndoManager \<times> 's \<Rightarrow> (py_error + unit) \<times> 'c UndoManager \<times> 's" where
  "execute h command ms =
     (let m = fst ms; s = snd ms in
      if is_undoing m then (Inr (), m, s)
      else case cmd_execute h command s of
          (Inl e, s1) \<Rightarrow> (Inl e, m, s1)
        | (Inr c1, s1) \<Rightarrow>
            let appended = undo_stack m @ [c1];
                limited = (if length appended > MAX_HISTORY then tl appended else appended);
                m1 = m\<lparr>undo_stack := limited, redo_stack := []\<rparr>
            in (Inr (), m1, save_history_if_possible h m1 s1))"

text \<open>The manager as the popped command's \<^verbatim>\<open>undo\<close> finds it: the guard is set and
  the command is off the undo stack.\<close>

definition undo_enter :: "'c UndoManager \<Rightarrow> 'c UndoManager" where
  "undo_enter m = m\<lparr>is_undoing := True, undo_stack := butlast (undo_stack m)\<rparr>"

definition undo ::
  "('c, 's) hooks \<Rightarrow> 'c UndoManager \<times> 's \<Rightarrow> (py_error + bool) \<times> 'c UndoManager \<times> 's" where
  "undo h ms =
     (let m = fst ms; s = snd ms in
      if undo_stack m = [] then (Inr False, m, s)
      else
        let command = last (undo_stack m);
            m1 = undo_enter m
        in case cmd_undo h command s of
            (Inl e, s1) \<Rightarrow> (Inl e, m1\<lparr>is_undoing := False\<rparr>, s1)
          | (Inr c1, s1) \<Rightarrow>
              let m2 = m1\<lparr>redo_stack := redo_stack m1 @ [c1], is_undoing := False\<rparr>
              in (Inr True, m2, save_history_if_possible h m2 s1))"

definition redo_enter :: "'c UndoManager \<Rightarrow> 'c UndoManager" where
  "redo_enter m = m\<lparr>is_undoing := True, redo_stack := butlast (redo_stack m)\<rparr>"

definition redo ::
  "('c, 's) hooks \<Rightarrow> 'c UndoManager \<times> 's \<Rightarrow> (py_error + bool) \<times> 'c UndoManager \<times> 's" where
  "redo h ms =
     (let m = fst ms; s = snd ms in
      if redo_stack m = [] then (Inr False, m, s)
      else
        let command = last (redo_stack m);
            m1 = redo_enter m
        in case cmd_execute h command s of
            (Inl e, s1) \<Rightarrow> (Inl e, m1\<lparr>is_undoing := False\<rparr>, s1)
          | (Inr c1, s1) \<Rightarrow>
              let m2 = m1\<lparr>undo_stack := undo_stack m1 @ [c1], is_undoing := False\<rparr>
              in (Inr True, m2, save_history_if_possible h m2 s1))"

definition clear :: "'c UndoManager \<Rightarrow> 'c UndoManager" where
  "clear m = m\<lparr>undo_stack := [], redo_stack := []\<rparr>"


text \<open>\<^verbatim>\<open>_deserialize_command\<close>. \<^verbatim>\<open>data.get("type")\<close> and the registry lookup are outside
  the \<^verbatim>\<open>try\<close>: a \<open>data\<close> that is no dictionary, or a tag that is unhashable, raises.
  The registry's keys are strings, so a tag that is not a string finds no class. Only
  \<^verbatim>\<open>from_dict\<close> is guarded: whatever it raises makes the result \<^verbatim>\<open>None\<close>.\<close>

definition deserialize_command :: "('c, 's) hooks \<Rightarrow> 's \<Rightarrow> json \<Rightarrow> py_error + 'c option" where
  "deserialize_command h ctx data =
     try_bind (py_get data ''type'' JNull) (\<lambda>cmd_type.
       if \<not> hashable cmd_type then Inl TypeError
       else case cmd_type of
           JStr tag \<Rightarrow>
             (case map_of (command_classes h) tag of
                None \<Rightarrow> Inr None
              | Some from_dict \<Rightarrow>
                  (case from_dict data ctx of Inl e \<Rightarrow> Inr None | Inr c \<Rightarrow> Inr (Some c)))
         | _ \<Rightarrow> Inr None)"

text \<open>One of the two loops of \<^verbatim>\<open>load_from_file\<close>: the commands that deserialize, in
  the order of the file, or the exception that ended the loop.\<close>

fun deserialize_stack :: "('c, 's) hooks \<Rightarrow> 's \<Rightarrow> json list \<Rightarrow> py_error + 'c list" where
  "deserialize_stack h ctx [] = Inr []"
| "deserialize_stack h ctx (cmd_data # rest) =
     try_bind (deserialize_command h ctx cmd_data) (\<lambda>cmd.
       try_bind (deserialize_stack h ctx rest) (\<lambda>cmds.
         Inr (case cmd of None \<Rightarrow> cmds | Some c \<Rightarrow> c # cmds)))"

text \<open>The body of the \<^verbatim>\<open>try\<close> in \<^verbatim>\<open>load_from_file\<close>, given the parsed document.\<close>

definition load_stacks :: "('c, 's) hooks \<Rightarrow> 's \<Rightarrow> json \<Rightarrow> py_error + 'c list \<times> 'c list" where
  "load_stacks h ctx data =
     try_bind (py_get data ''undo_stack'' (JList [])) (\<lambda>raw_undo.
     try_bind (py_iter raw_undo) (\<lambda>undo_items.
     try_bind (deserialize_stack h ctx undo_items) (\<lambda>undo_cmds.
     try_bind (py_get data ''redo_stack'' (JList [])) (\<lambda>raw_redo.
     try_bind (py_iter raw_redo) (\<lambda>redo_items.
     try_bind (deserialize_stack h ctx redo_items) (\<lambda>redo_cmds.
       Inr (undo_cmds, redo_cmds)))))))"

text \<open>\<^verbatim>\<open>load_from_file\<close>: no file, a file that cannot be read or parsed, and any
  exception while the stacks are rebuilt all end in \<^verbatim>\<open>self.clear()\<close>; the method
  itself never raises.\<close>

definition load_from_file :: "('c, 's) hooks \<Rightarrow> 'c UndoManager \<times> 's \<Rightarrow> 'c UndoManager" where
  "load_from_file h ms =
     (let m = fst ms; s = snd ms in
      case read_history h s of
        NoFile \<Rightarrow> clear m
      | Unreadable \<Rightarrow> clear m
      | Document data \<Rightarrow>
          (case load_stacks h s data of
             Inl e \<Rightarrow> clear m
           | Inr stacks \<Rightarrow> m\<lparr>undo_stack := fst stacks, redo_stack := snd stacks\<rparr>))"




subsection \<open>The manager of the application\<close>

text \<open>The manager with the command classes of this module, on the context of the
  application: the history is saved when the context has a project manager with an open
  project.\<close>

definition app_hooks :: "(Command, ctx) hooks" where
  "app_hooks =
     \<lparr>cmd_execute = Command_execute,
      cmd_undo = Command_undo,
      cmd_to_dict = Command_to_dict,
      command_classes = command_classes_table,
      project_open = (\<lambda>cx. case project_manager cx of None \<Rightarrow> False | Some pm \<Rightarrow> is_project_open pm),
      write_history = (\<lambda>doc cx. cx\<lparr>history := Document doc\<rparr>),
      read_history = history\<rparr>"


subsection \<open>Entries of a history file\<close>

text \<open>An entry that \<^verbatim>\<open>_deserialize_command\<close> answers with \<^verbatim>\<open>None\<close>: a JSON object whose
  kind tag is a string that is no key of the registry, or is missing, \<^verbatim>\<open>null\<close>, a number
  or a boolean, or whose class raises in \<^verbatim>\<open>from_dict\<close>.\<close>

definition dropped_entry :: "('c, 's) hooks \<Rightarrow> 's \<Rightarrow> json \<Rightarrow> bool" where
  "dropped_entry h cx item =
     (case item of
        JDict d \<Rightarrow>
          (case dict_get d ''type'' JNull of
             JStr tag \<Rightarrow>
               (case map_of (command_classes h) tag of
                  None \<Rightarrow> True
                | Some from_dict \<Rightarrow> (case from_dict item cx of Inl e \<Rightarrow> True | Inr c \<Rightarrow> False))
           | JList xs \<Rightarrow> False
           | JDict x \<Rightarrow> False
           | _ \<Rightarrow> True)
      | _ \<Rightarrow> False)"

text \<open>A well-formed entry: a JSON object whose kind tag is in the registry and whose class
  builds the command \<open>c\<close> from it.\<close>

definition loads_as :: "('c, 's) hooks \<Rightarrow> 's \<Rightarrow> json \<Rightarrow> 'c \<Rightarrow> bool" where
  "loads_as h cx item c =
     (case item of
        JDict d \<Rightarrow>
          (case dict_get d ''type'' JNull of
             JStr tag \<Rightarrow>
               (case map_of (command_classes h) tag of
                  None \<Rightarrow> False
                | Some from_dict \<Rightarrow> from_dict item cx = Inr c)
           | _ \<Rightarrow> False)
      | _ \<Rightarrow> False)"

text \<open>What becomes of an entry: \<open>None\<close> for one that is dropped, the command for one that
  is well formed.\<close>

definition entry_result :: "('c, 's) hooks \<Rightarrow> 's \<Rightarrow> json \<Rightarrow> 'c option \<Rightarrow> bool" where
  "entry_result h cx item r =
     (case r of None \<Rightarrow> dropped_entry h cx item | Some c \<Rightarrow> loads_as h cx item c)"

definition kept :: "'c option list \<Rightarrow> 'c list" where
  "kept rs = map the (filter (\<lambda>r. r \<noteq> None) rs)"

text \<open>An entry on which \<^verbatim>\<open>_deserialize_command\<close> raises: no JSON object, so that it has no
  \<^verbatim>\<open>get\<close>, or an object whose kind tag is a list or an object, which is no key of a
  dictionary.\<close>

definition raising_entry :: "json \<Rightarrow> bool" where
  "raising_entry item =
     (case item of JDict d \<Rightarrow> \<not> hashable (dict_get d ''type'' JNull) | _ \<Rightarrow> True)"


section \<open>Example states\<close>

definition blank_scene :: scene where
  "blank_scene =
     \<lparr>scene_nodes = Map.empty, scene_waypoints = Map.empty, scene_groups = Map.empty,
      scene_edges = Map.empty, scene_pipeline_color = ''#607D8B'',
      scene_reference_color = ''#4CAF50'', is_undo_operation = False\<rparr>"

definition blank_ctx :: ctx where
  "blank_ctx =
     \<lparr>project_dock = None, scene = Some blank_scene, project_manager = None,
      module_palette = None, rng = (\<lambda>n. ''uuid''), history = NoFile\<rparr>"

text \<open>A manager whose next \<open>undo\<close> and whose next \<open>redo\<close> both raise: the node dictionary
  on top of the undo stack has no \<^verbatim>\<open>id\<close>, and the group dictionary on top of the redo
  stack has \<^verbatim>\<open>null\<close> for its position.\<close>

definition failing_manager :: "Command UndoManager" where
  "failing_manager =
     \<lparr>undo_stack = [TodoAddCommand ''a'' 0, AddNodeCommand []],
      redo_stack = [TodoAddCommand ''b'' 1, AddGroupCommand [(''position'', JNull)]],
      is_undoing = False\<rparr>"







text \<open>A project with the nodes \<open>A\<close> and \<open>B\<close>, an edge between them and an edge to a node
  that does not exist.\<close>

definition plain_node :: "string \<Rightarrow> NodeData" where
  "plain_node i =
     \<lparr>node_id = i, node_type = ''pipeline_module'', position = \<lparr>pos_x = 0, pos_y = 0\<rparr>,
      tags = [],
      metadata = \<lparr>title = [], year = [], conference = [], relative_path_to_md = [],
                  module_name' = [], module_type = []\<rparr>,
      snippets = []\<rparr>"

definition dangling_project :: ProjectData where
  "dangling_project = ProjectData_new
     \<lparr>nodes := [plain_node ''A'', plain_node ''B''],
      edges := [\<lparr>edge_id = ''e1'', source_id = ''A'', target_id = ''B''\<rparr>,
                \<lparr>edge_id = ''e2'', source_id = ''A'', target_id = ''missing''\<rparr>]\<rparr>"

definition dangling_manager :: ProjectManager where
  "dangling_manager =
     \<lparr>current_project_name = Some ''demo'', current_project_path = Some ''projects/demo'',
      project_data = Some dangling_project\<rparr>"

definition empty_store :: asset_store where
  "empty_store = \<lparr>papers_dir = Some [], images_dir = Some []\<rparr>"

text \<open>A project with a migrated tag, a to-do and one group, and a project document of
  the old format with fields missing.\<close>

definition tagged_project :: ProjectData where
  "tagged_project = dangling_project
     \<lparr>global_tags := [JDict [(''name'', JStr ''ml''), (''color'', JStr ''#FF5722'')]],
      todos := [[(''text'', JStr ''write''), (''done'', JBool True)]],
      groups := [\<lparr>group_id = ''g1'', group_name = ''Group'',
                  group_position = \<lparr>pos_x = 10, pos_y = 20\<rparr>, width = 300, height = 200,
                  color = ''#78909C'', node_ids = [''A'']\<rparr>]\<rparr>"

definition legacy_document :: "(string \<times> json) list" where
  "legacy_document =
     [(''description'', JStr ''old''),
      (''global_tags'', JList [JStr ''a'', JDict [(''name'', JStr ''c''), (''color'', JStr ''#fff'')],
                               JStr ''b''])]"

definition partial_node_document :: json where
  "partial_node_document = JDict [(''id'', JStr ''n1''), (''position'', JDict [(''x'', JFloat 3)])]"






text \<open>A history file with two well-formed commands, an entry of a kind that the registry
  does not know and an entry that lacks the fields of its kind; and one with a single
  entry whose kind tag is a list, after a well-formed command.\<close>

definition mixed_history :: json where
  "mixed_history = JDict
     [(''undo_stack'', JList
        [JDict [(''type'', JStr ''TodoAdd''), (''todo_text'', JStr ''t''), (''todo_index'', JInt 0)],
         JDict [(''type'', JStr ''FutureCommand''), (''payload'', JInt 1)],
         JDict [(''type'', JStr ''TodoToggle'')],
         JDict [(''type'', JStr ''TagAdd''), (''tag_name'', JStr ''ml'')]]),
      (''redo_stack'', JList
        [JDict [(''type'', JStr ''TodoToggle''), (''todo_index'', JInt 0), (''new_state'', JBool True)]])]"

definition unhashable_history :: json where
  "unhashable_history = JDict
     [(''undo_stack'', JList
        [JDict [(''type'', JStr ''TodoAdd''), (''todo_text'', JStr ''t''), (''todo_index'', JInt 0)],
         JDict [(''type'', JList [JStr ''x''])]]),
      (''redo_stack'', JList [])]"


section \<open>The state that a command records\<close>










section \<open>Properties of the UndoManager\<close>

lemma execute_guarded: "is_undoing m \<Longrightarrow> execute h c (m, s) = (Inr (), m, s)"
  by (simp add: execute_def)















text \<open>
  C10. When the \<^verbatim>\<open>undo\<close> of the command popped by \<^verbatim>\<open>UndoManager.undo\<close> raises, the
  exception reaches the caller (the call does not return \<^verbatim>\<open>False\<close>), the command is gone
  from the undo stack and has not been pushed to the redo stack, which is as before, and
  the guard is cleared. \<^verbatim>\<open>UndoManager.redo\<close> does the same with the redo stack when the
  command's \<^verbatim>\<open>execute\<close> raises.
\<close>

theorem raising_command_is_lost:
  "(undo_stack m \<noteq> [] \<and> cmd_undo h (last (undo_stack m)) s = (Inl e, s1) \<longrightarrow>
      undo h (m, s) =
        (Inl e, m\<lparr>undo_stack := butlast (undo_stack m), is_undoing := False\<rparr>, s1)) \<and>
   (redo_stack m \<noteq> [] \<and> cmd_execute h (last (redo_stack m)) s = (Inl e, s1) \<longrightarrow>
      redo h (m, s) =
        (Inl e, m\<lparr>redo_stack := butlast (redo_stack m), is_undoing := False\<rparr>, s1))"
  by (simp add: undo_def redo_def undo_enter_def redo_enter_def Let_def)

lemma failing_undo:
  "cmd_undo app_hooks (last (undo_stack failing_manager)) blank_ctx = (Inl KeyError, blank_ctx)"
  by (simp add: app_hooks_def failing_manager_def blank_ctx_def scene_step_def
      remove_node_block_def dict_item_def try_bind_def blank_scene_def)

lemma failing_redo:
  "cmd_execute app_hooks (last (redo_stack failing_manager)) blank_ctx =
     (Inl AttributeError, blank_ctx)"
  by (simp add: app_hooks_def failing_manager_def blank_ctx_def restore_group_block_def
      GroupData_from_dict_def dict_get_def try_bind_def blank_scene_def Position_from_dict_def
      as_str_def generate_uuid_def Let_def)

theorem raising_command_is_lost_witness:
  "undo_stack failing_manager \<noteq> [] \<and>
   cmd_undo app_hooks (last (undo_stack failing_manager)) blank_ctx = (Inl KeyError, blank_ctx) \<and>
   undo app_hooks (failing_manager, blank_ctx) =
     (Inl KeyError,
      \<lparr>undo_stack = [TodoAddCommand ''a'' 0],
       redo_stack = [TodoAddCommand ''b'' 1, AddGroupCommand [(''position'', JNull)]],
       is_undoing = False\<rparr>, blank_ctx) \<and>
   redo_stack failing_manager \<noteq> [] \<and>
   cmd_execute app_hooks (last (redo_stack failing_manager)) blank_ctx =
     (Inl AttributeError, blank_ctx) \<and>
   redo app_hooks (failing_manager, blank_ctx) =
     (Inl AttributeError,
      \<lparr>undo_stack = [TodoAddCommand ''a'' 0, AddNodeCommand []],
       redo_stack = [TodoAddCommand ''b'' 1],
       is_undoing = False\<rparr>, blank_ctx)"
proof -
  have nonempty: "undo_stack failing_manager \<noteq> []" "redo_stack failing_manager \<noteq> []"
    by (simp_all add: failing_manager_def)
  have u: "undo app_hooks (failing_manager, blank_ctx) =
      (Inl KeyError, failing_manager\<lparr>undo_stack := butlast (undo_stack failing_manager),
         is_undoing := False\<rparr>, blank_ctx)"
    using raising_command_is_lost [of failing_manager app_hooks blank_ctx KeyError blank_ctx]
      nonempty failing_undo by simp
  have r: "redo app_hooks (failing_manager, blank_ctx) =
      (Inl AttributeError, failing_manager\<lparr>redo_stack := butlast (redo_stack failing_manager),
         is_undoing := False\<rparr>, blank_ctx)"
    using raising_command_is_lost [of failing_manager app_hooks blank_ctx AttributeError blank_ctx]
      nonempty failing_redo by simp
  show ?thesis
    using nonempty failing_undo failing_redo u r by (simp add: failing_manager_def)
qed










lemma todo_add_entry:
  "deserialize_command app_hooks cx
     (JDict [(''type'', JStr ''TodoAdd''), (''todo_text'', JStr ''t''), (''todo_index'', JInt 0)]) =
   Inr (Some (TodoAddCommand ''t'' 0))"
  by (simp add: deserialize_command_def py_get_def dict_get_def try_bind_def hashable_def
      app_hooks_def command_classes_table_def TodoAddCommand_from_dict_def field_def py_item_def
      dict_item_def as_str_def as_int_def)



section \<open>Properties of validation\<close>

lemma validate_edges_filter:
  "validate_edges ids es =
     (filter (\<lambda>e. source_id e \<in> set ids \<and> target_id e \<in> set ids) es,
      length (filter (\<lambda>e. \<not> (source_id e \<in> set ids \<and> target_id e \<in> set ids)) es))"
  by (induction es) (simp_all add: Let_def)

lemma filter_twice: "filter P (filter P xs) = filter P xs"
  by (induction xs) auto

lemma filter_complement: "filter (\<lambda>x. \<not> P x) (filter P xs) = []"
  by (induction xs) auto

lemma cleanup_keeps_manager_out: "\<exists>counts store1. cleanup_orphaned_assets pm store = (counts, store1)"
  by (cases "cleanup_orphaned_assets pm store") simp

text \<open>
  C9. With a project open, \<^verbatim>\<open>validate_and_clean_data\<close> returns, and the project then has
  exactly the edges whose source and target are both identifiers of its nodes, in their
  old order, everything else in the project as before; the count \<^verbatim>\<open>edges_removed\<close> is the
  number of the other edges; and a second run on the result changes no edge and reports
  \<^verbatim>\<open>edges_removed = 0\<close>.
\<close>

theorem validate_removes_dangling_edges:
  assumes "is_project_open pm" and "project_data pm = Some pd"
  shows "\<exists>stats store1 stats2 store2.
     validate_and_clean_data pm store =
       Inr (stats,
            pm\<lparr>project_data := Some (pd\<lparr>edges :=
               filter (\<lambda>e. source_id e \<in> node_id ` set (nodes pd) \<and>
                            target_id e \<in> node_id ` set (nodes pd)) (edges pd)\<rparr>)\<rparr>,
            store1) \<and>
     map_of stats ''edges_removed'' =
       Some (length (filter (\<lambda>e. \<not> (source_id e \<in> node_id ` set (nodes pd) \<and>
                                     target_id e \<in> node_id ` set (nodes pd))) (edges pd))) \<and>
     validate_and_clean_data
        (pm\<lparr>project_data := Some (pd\<lparr>edges :=
               filter (\<lambda>e. source_id e \<in> node_id ` set (nodes pd) \<and>
                            target_id e \<in> node_id ` set (nodes pd)) (edges pd)\<rparr>)\<rparr>) store1 =
       Inr (stats2,
            pm\<lparr>project_data := Some (pd\<lparr>edges :=
               filter (\<lambda>e. source_id e \<in> node_id ` set (nodes pd) \<and>
                            target_id e \<in> node_id ` set (nodes pd)) (edges pd)\<rparr>)\<rparr>,
            store2) \<and>
     map_of stats2 ''edges_removed'' = Some 0"
  using assms
  by (simp add: validate_and_clean_data_def validate_edges_filter Let_def is_project_open_def
      filter_twice filter_complement del: filter_filter)


theorem validate_removes_dangling_edges_witness:
  "is_project_open dangling_manager \<and> project_data dangling_manager = Some dangling_project \<and>
   validate_and_clean_data dangling_manager empty_store =
     Inr ([(''edges_removed'', 1), (''assets_removed'', 0)],
          dangling_manager\<lparr>project_data := Some (dangling_project
             \<lparr>edges := [\<lparr>edge_id = ''e1'', source_id = ''A'', target_id = ''B''\<rparr>]\<rparr>)\<rparr>,
          empty_store) \<and>
   validate_and_clean_data
       (dangling_manager\<lparr>project_data := Some (dangling_project
             \<lparr>edges := [\<lparr>edge_id = ''e1'', source_id = ''A'', target_id = ''B''\<rparr>]\<rparr>)\<rparr>)
       empty_store =
     Inr ([(''edges_removed'', 0), (''assets_removed'', 0)],
          dangling_manager\<lparr>project_data := Some (dangling_project
             \<lparr>edges := [\<lparr>edge_id = ''e1'', source_id = ''A'', target_id = ''B''\<rparr>]\<rparr>)\<rparr>,
          empty_store)"
proof -
  have o: "is_project_open dangling_manager" "project_data dangling_manager = Some dangling_project"
    by (simp_all add: is_project_open_def dangling_manager_def)
  have f: "filter (\<lambda>e. source_id e \<in> node_id ` set (nodes dangling_project) \<and>
                     target_id e \<in> node_id ` set (nodes dangling_project)) (edges dangling_project) =
           [\<lparr>edge_id = ''e1'', source_id = ''A'', target_id = ''B''\<rparr>]"
    by (simp add: dangling_project_def ProjectData_new_def plain_node_def)
  have c: "cleanup_orphaned_assets pm empty_store = ([(''papers'', 0), (''images'', 0)], empty_store)" for pm
    by (simp add: cleanup_orphaned_assets_def empty_store_def Let_def)
  from validate_removes_dangling_edges [OF o, of empty_store] obtain stats store1 stats2 store2 where
    r: "validate_and_clean_data dangling_manager empty_store =
       Inr (stats, dangling_manager\<lparr>project_data := Some (dangling_project
             \<lparr>edges := [\<lparr>edge_id = ''e1'', source_id = ''A'', target_id = ''B''\<rparr>]\<rparr>)\<rparr>, store1)"
    and r2: "validate_and_clean_data
       (dangling_manager\<lparr>project_data := Some (dangling_project
             \<lparr>edges := [\<lparr>edge_id = ''e1'', source_id = ''A'', target_id = ''B''\<rparr>]\<rparr>)\<rparr>) store1 =
       Inr (stats2, dangling_manager\<lparr>project_data := Some (dangling_project
             \<lparr>edges := [\<lparr>edge_id = ''e1'', source_id = ''A'', target_id = ''B''\<rparr>]\<rparr>)\<rparr>, store2)"
    unfolding f by blast
  have s1: "stats = [(''edges_removed'', 1), (''assets_removed'', 0)] \<and> store1 = empty_store"
    using r o c
    by (simp add: validate_and_clean_data_def validate_edges_filter Let_def
        dangling_project_def ProjectData_new_def plain_node_def dangling_manager_def)
  have s2: "stats2 = [(''edges_removed'', 0), (''assets_removed'', 0)] \<and> store2 = empty_store"
    using r2 o c s1
    by (simp add: validate_and_clean_data_def validate_edges_filter Let_def is_project_open_def
        dangling_project_def ProjectData_new_def plain_node_def dangling_manager_def)
  show ?thesis using o r r2 s1 s2 by simp
qed


section \<open>Properties of the data models\<close>

lemma try_bind_Inr [simp]: "try_bind (Inr v) f = f v"
  by (simp add: try_bind_def)

lemma try_bind_Inl [simp]: "try_bind (Inl e) f = Inl e"
  by (simp add: try_bind_def)

lemma as_simps [simp]:
  "as_str (JStr s) = Inr s" "as_float (JFloat r) = Inr r" "as_int (JInt i) = Inr i"
  "as_bool (JBool b) = Inr b" "as_dict (JDict d) = Inr d"
  by (simp_all add: as_str_def as_float_def as_int_def as_bool_def as_dict_def)

lemma try_map_map: "(\<And>x. f (g x) = Inr x) \<Longrightarrow> try_map f (map g xs) = Inr xs"
  by (induction xs) simp_all

lemma copy_str_list_JStr [simp]: "copy_str_list (JList (map JStr xs)) = Inr xs"
  by (simp add: copy_str_list_def try_map_map)

lemma Position_roundtrip: "Position_from_dict (Position_to_dict p) = Inr p"
  by (simp add: Position_from_dict_def Position_to_dict_def dict_get_def)

lemma Snippet_roundtrip:
  "Snippet_from_dict (Snippet_to_dict sn) g = Inr (sn, snd (generate_uuid g))"
  by (simp add: Snippet_from_dict_def Snippet_to_dict_def dict_get_def Let_def)

lemma NodeMetadata_roundtrip: "NodeMetadata_from_dict (NodeMetadata_to_dict md) = Inr md"
  by (simp add: NodeMetadata_from_dict_def NodeMetadata_to_dict_def dict_get_def)

lemma from_dict_list_roundtrip:
  assumes "\<And>x g. \<exists>g1. f (to x) g = Inr (x, g1)"
  shows "\<exists>g1. from_dict_list f (map to xs) g = Inr (xs, g1)"
proof (induction xs arbitrary: g)
  case Nil
  then show ?case by simp
next
  case (Cons x xs)
  obtain g1 where "f (to x) g = Inr (x, g1)" using assms by blast
  moreover obtain g2 where "from_dict_list f (map to xs) g1 = Inr (xs, g2)" using Cons by blast
  ultimately show ?case by simp
qed

lemma NodeData_roundtrip: "\<exists>g1. NodeData_from_dict (NodeData_to_dict n) g = Inr (n, g1)"
proof -
  obtain g1 where "from_dict_list Snippet_from_dict (map Snippet_to_dict (snippets n))
      (snd (generate_uuid g)) = Inr (snippets n, g1)"
    using from_dict_list_roundtrip [of Snippet_from_dict Snippet_to_dict] Snippet_roundtrip by blast
  then show ?thesis
    by (simp add: NodeData_from_dict_def NodeData_to_dict_def dict_get_def Let_def
        Position_roundtrip NodeMetadata_roundtrip py_iter_def)
qed

lemma EdgeData_roundtrip:
  "EdgeData_from_dict (EdgeData_to_dict e) g = Inr (e, snd (generate_uuid g))"
  by (simp add: EdgeData_from_dict_def EdgeData_to_dict_def dict_get_def Let_def)

lemma GroupData_roundtrip:
  "GroupData_from_dict (GroupData_to_dict gd) g = Inr (gd, snd (generate_uuid g))"
  by (simp add: GroupData_from_dict_def GroupData_to_dict_def dict_get_def Let_def
      Position_roundtrip)

lemma migrate_tag_to_dict: "list_all is_dict ts \<Longrightarrow> map migrate_tag (map tag_to_dict ts) = ts"
  by (induction ts) (auto simp: is_dict_def migrate_tag_def tag_to_dict_def split: json.splits)

lemma ProjectData_roundtrip:
  assumes "list_all is_dict (global_tags pd)"
  shows "\<exists>g1. ProjectData_from_dict (ProjectData_to_dict pd) g = Inr (pd, g1)"
proof -
  obtain g1 where n: "from_dict_list NodeData_from_dict (map NodeData_to_dict (nodes pd)) g =
      Inr (nodes pd, g1)"
    using from_dict_list_roundtrip [of NodeData_from_dict NodeData_to_dict] NodeData_roundtrip
    by blast
  obtain g2 where e: "from_dict_list EdgeData_from_dict (map EdgeData_to_dict (edges pd)) g1 =
      Inr (edges pd, g2)"
    using from_dict_list_roundtrip [of EdgeData_from_dict EdgeData_to_dict] EdgeData_roundtrip
    by blast
  obtain g3 where gr: "from_dict_list GroupData_from_dict (map GroupData_to_dict (groups pd)) g2 =
      Inr (groups pd, g3)"
    using from_dict_list_roundtrip [of GroupData_from_dict GroupData_to_dict] GroupData_roundtrip
    by blast
  show ?thesis
    using n e gr migrate_tag_to_dict [OF assms]
    by (simp add: ProjectData_from_dict_def ProjectData_to_dict_def dict_get_def py_iter_def
        as_dict_list_def as_int_list_def try_map_map)
qed

lemma map_of_filter_key:
  "map_of (filter (\<lambda>kv. map_of d (fst kv) = None) defs) k =
     (if map_of d k = None then map_of defs k else None)"
  by (induction defs) auto

lemma dict_get_complete:
  "map_of defs k = Some dflt \<Longrightarrow> dict_get (complete d defs) k x = dict_get d k dflt"
  by (simp add: dict_get_def complete_def map_of_append map_of_filter_key map_add_def
      split: option.splits)

lemma Position_completion:
  "Position_from_dict (JDict (complete d Position_defaults)) = Position_from_dict (JDict d)"
  by (simp add: Position_from_dict_def dict_get_complete Position_defaults_def)

lemma Snippet_completion:
  "Snippet_from_dict (JDict (complete d (Snippet_defaults g))) g = Snippet_from_dict (JDict d) g"
  by (simp add: Snippet_from_dict_def dict_get_complete Snippet_defaults_def Let_def)

lemma NodeMetadata_completion:
  "NodeMetadata_from_dict (JDict (complete d NodeMetadata_defaults)) = NodeMetadata_from_dict (JDict d)"
  by (simp add: NodeMetadata_from_dict_def dict_get_complete NodeMetadata_defaults_def)

lemma NodeData_completion:
  "NodeData_from_dict (JDict (complete d (NodeData_defaults g))) g = NodeData_from_dict (JDict d) g"
  by (simp add: NodeData_from_dict_def dict_get_complete NodeData_defaults_def Let_def)

lemma EdgeData_completion:
  "EdgeData_from_dict (JDict (complete d (EdgeData_defaults g))) g = EdgeData_from_dict (JDict d) g"
  by (simp add: EdgeData_from_dict_def dict_get_complete EdgeData_defaults_def Let_def)

lemma GroupData_completion:
  "GroupData_from_dict (JDict (complete d (GroupData_defaults g))) g = GroupData_from_dict (JDict d) g"
  by (simp add: GroupData_from_dict_def dict_get_complete GroupData_defaults_def Let_def)

lemma ProjectData_completion:
  "ProjectData_from_dict (JDict (complete d ProjectData_defaults)) g = ProjectData_from_dict (JDict d) g"
  by (simp add: ProjectData_from_dict_def dict_get_complete ProjectData_defaults_def)

lemma absent_or_str:
  "absent_or is_str d k \<Longrightarrow> \<exists>s. as_str (dict_get d k (JStr dflt)) = Inr s"
  by (auto simp: absent_or_def is_str_def dict_get_def split: option.splits json.splits)

lemma absent_or_num:
  "absent_or is_num d k \<Longrightarrow> \<exists>r. as_float (dict_get d k (JFloat dflt)) = Inr r"
  by (auto simp: absent_or_def is_num_def dict_get_def as_float_def split: option.splits json.splits)

lemma absent_or_bool:
  "absent_or is_bool d k \<Longrightarrow> \<exists>b. as_bool (dict_get d k (JBool dflt)) = Inr b"
  by (auto simp: absent_or_def is_bool_def dict_get_def split: option.splits json.splits)

lemma absent_or_dict:
  "absent_or is_dict d k \<Longrightarrow> \<exists>b. as_dict (dict_get d k (JDict dflt)) = Inr b"
  by (auto simp: absent_or_def is_dict_def dict_get_def split: option.splits json.splits)

lemma try_map_total: "list_all P xs \<Longrightarrow> (\<And>x. P x \<Longrightarrow> \<exists>y. f x = Inr y) \<Longrightarrow> \<exists>ys. try_map f xs = Inr ys"
proof (induction xs)
  case Nil
  then show ?case by simp
next
  case (Cons x xs)
  then obtain y ys where "f x = Inr y" "try_map f xs = Inr ys" by fastforce
  then show ?case by simp
qed

lemma is_str_as_str: "is_str x \<Longrightarrow> \<exists>y. as_str x = Inr y"
  by (cases x) (simp_all add: is_str_def)

lemma is_int_as_int: "is_int x \<Longrightarrow> \<exists>y. as_int x = Inr y"
  by (cases x) (simp_all add: is_int_def)

lemma is_dict_as_dict: "is_dict x \<Longrightarrow> \<exists>y. as_dict x = Inr y"
  by (cases x) (simp_all add: is_dict_def)

lemma absent_or_str_list:
  "absent_or (is_list_of is_str) d k \<Longrightarrow> \<exists>xs. copy_str_list (dict_get d k (JList [])) = Inr xs"
  using try_map_total [of is_str _ as_str] is_str_as_str
  by (auto simp: absent_or_def is_list_of_def dict_get_def copy_str_list_def
      split: option.splits json.splits)

lemma absent_or_int_list:
  "absent_or (is_list_of is_int) d k \<Longrightarrow> \<exists>xs. as_int_list (dict_get d k (JList [])) = Inr xs"
  using try_map_total [of is_int _ as_int] is_int_as_int
  by (auto simp: absent_or_def is_list_of_def dict_get_def as_int_list_def
      split: option.splits json.splits)

lemma absent_or_dict_list:
  "absent_or (is_list_of is_dict) d k \<Longrightarrow> \<exists>xs. as_dict_list (dict_get d k (JList [])) = Inr xs"
  using try_map_total [of is_dict _ as_dict] is_dict_as_dict
  by (auto simp: absent_or_def is_list_of_def dict_get_def as_dict_list_def
      split: option.splits json.splits)

lemma absent_or_list:
  "absent_or (is_list_of P) d k \<Longrightarrow>
     \<exists>xs. py_iter (dict_get d k (JList [])) = Inr xs \<and> list_all P xs"
  by (auto simp: absent_or_def is_list_of_def dict_get_def py_iter_def
      split: option.splits json.splits)

lemma Position_total: "partial_Position v \<Longrightarrow> \<exists>p. Position_from_dict v = Inr p"
proof (cases v)
  case (JDict d)
  assume "partial_Position v"
  with JDict obtain vx vy where "as_float (dict_get d ''x'' (JFloat 0)) = Inr vx"
    "as_float (dict_get d ''y'' (JFloat 0)) = Inr vy"
    using absent_or_num [of d "''x''" 0] absent_or_num [of d "''y''" 0]
    by (auto simp: partial_Position_def)
  with JDict show ?thesis by (simp add: Position_from_dict_def)
qed (simp_all add: partial_Position_def)

lemma absent_or_Position:
  "absent_or partial_Position d k \<Longrightarrow> \<exists>p. Position_from_dict (dict_get d k (JDict [])) = Inr p"
  using Position_total
  by (auto simp: absent_or_def dict_get_def partial_Position_def split: option.splits)

lemma Snippet_total: "partial_Snippet v \<Longrightarrow> \<exists>r. Snippet_from_dict v g = Inr r"
proof (cases v)
  case (JDict d)
  assume "partial_Snippet v"
  with JDict obtain a b c e where
    "as_str (dict_get d ''id'' (JStr (fst (generate_uuid g)))) = Inr a"
    "as_str (dict_get d ''type'' (JStr ''text'')) = Inr b"
    "as_str (dict_get d ''content'' (JStr [])) = Inr c"
    "as_str (dict_get d ''source_label'' (JStr [])) = Inr e"
    using absent_or_str [of d "''id''"] absent_or_str [of d "''type''"]
      absent_or_str [of d "''content''"] absent_or_str [of d "''source_label''"]
    unfolding partial_Snippet_def by (simp only: json.case) blast
  with JDict show ?thesis by (simp add: Snippet_from_dict_def Let_def)
qed (simp_all add: partial_Snippet_def)

lemma NodeMetadata_total: "partial_NodeMetadata v \<Longrightarrow> \<exists>r. NodeMetadata_from_dict v = Inr r"
proof (cases v)
  case (JDict d)
  assume "partial_NodeMetadata v"
  with JDict obtain a b c e f h where
    "as_str (dict_get d ''title'' (JStr [])) = Inr a"
    "as_str (dict_get d ''year'' (JStr [])) = Inr b"
    "as_str (dict_get d ''conference'' (JStr [])) = Inr c"
    "as_str (dict_get d ''relative_path_to_md'' (JStr [])) = Inr e"
    "as_str (dict_get d ''module_name'' (JStr [])) = Inr f"
    "as_str (dict_get d ''module_type'' (JStr [])) = Inr h"
    using absent_or_str [of d "''title''"] absent_or_str [of d "''year''"]
      absent_or_str [of d "''conference''"] absent_or_str [of d "''relative_path_to_md''"]
      absent_or_str [of d "''module_name''"] absent_or_str [of d "''module_type''"]
    unfolding partial_NodeMetadata_def by (simp only: json.case) blast
  with JDict show ?thesis by (simp add: NodeMetadata_from_dict_def)
qed (simp_all add: partial_NodeMetadata_def)

lemma absent_or_NodeMetadata:
  "absent_or partial_NodeMetadata d k \<Longrightarrow>
     \<exists>p. NodeMetadata_from_dict (dict_get d k (JDict [])) = Inr p"
  using NodeMetadata_total
  by (auto simp: absent_or_def dict_get_def partial_NodeMetadata_def split: option.splits)

lemma from_dict_list_total:
  assumes "\<And>x g. P x \<Longrightarrow> \<exists>r. f x g = Inr r"
  shows "list_all P xs \<Longrightarrow> \<exists>r. from_dict_list f xs g = Inr r"
proof (induction xs arbitrary: g)
  case Nil
  then show ?case by simp
next
  case (Cons x xs)
  then obtain r where r: "f x g = Inr r" using assms by fastforce
  obtain rs where "from_dict_list f xs (snd r) = Inr rs" using Cons by fastforce
  with r show ?case by simp
qed

lemma EdgeData_total: "partial_EdgeData v \<Longrightarrow> \<exists>r. EdgeData_from_dict v g = Inr r"
proof (cases v)
  case (JDict d)
  assume "partial_EdgeData v"
  with JDict obtain a b c where
    "as_str (dict_get d ''id'' (JStr (fst (generate_uuid g)))) = Inr a"
    "as_str (dict_get d ''source_id'' (JStr [])) = Inr b"
    "as_str (dict_get d ''target_id'' (JStr [])) = Inr c"
    using absent_or_str [of d "''id''"] absent_or_str [of d "''source_id''"]
      absent_or_str [of d "''target_id''"]
    unfolding partial_EdgeData_def by (simp only: json.case) blast
  with JDict show ?thesis by (simp add: EdgeData_from_dict_def Let_def)
qed (simp_all add: partial_EdgeData_def)

lemma NodeData_total: "partial_NodeData v \<Longrightarrow> \<exists>r. NodeData_from_dict v g = Inr r"
proof (cases v)
  case (JDict d)
  assume p: "partial_NodeData v"
  from p JDict obtain a b where s:
    "as_str (dict_get d ''id'' (JStr (fst (generate_uuid g)))) = Inr a"
    "as_str (dict_get d ''type'' (JStr ''pipeline_module'')) = Inr b"
    using absent_or_str [of d "''id''"] absent_or_str [of d "''type''"]
    unfolding partial_NodeData_def by (simp only: json.case) blast
  from p JDict obtain ps where ps: "Position_from_dict (dict_get d ''position'' (JDict [])) = Inr ps"
    using absent_or_Position [of d "''position''"]
    unfolding partial_NodeData_def by (simp only: json.case) blast
  from p JDict obtain tg where tg: "copy_str_list (dict_get d ''tags'' (JList [])) = Inr tg"
    using absent_or_str_list [of d "''tags''"]
    unfolding partial_NodeData_def by (simp only: json.case) blast
  from p JDict obtain md where md: "NodeMetadata_from_dict (dict_get d ''metadata'' (JDict [])) = Inr md"
    using absent_or_NodeMetadata [of d "''metadata''"]
    unfolding partial_NodeData_def by (simp only: json.case) blast
  from p JDict obtain raw where raw: "py_iter (dict_get d ''snippets'' (JList [])) = Inr raw"
    "list_all partial_Snippet raw"
    using absent_or_list [of partial_Snippet d "''snippets''"]
    unfolding partial_NodeData_def by (simp only: json.case) blast
  obtain sns where "from_dict_list Snippet_from_dict raw (snd (generate_uuid g)) = Inr sns"
    using from_dict_list_total [of partial_Snippet Snippet_from_dict raw] Snippet_total raw(2)
    by blast
  with s ps tg md raw JDict show ?thesis by (simp add: NodeData_from_dict_def Let_def)
qed (simp_all add: partial_NodeData_def)

lemma GroupData_total: "partial_GroupData v \<Longrightarrow> \<exists>r. GroupData_from_dict v g = Inr r"
proof (cases v)
  case (JDict d)
  assume p: "partial_GroupData v"
  from p JDict obtain a b c where s:
    "as_str (dict_get d ''id'' (JStr (fst (generate_uuid g)))) = Inr a"
    "as_str (dict_get d ''name'' (JStr ''Group'')) = Inr b"
    "as_str (dict_get d ''color'' (JStr ''#78909C'')) = Inr c"
    using absent_or_str [of d "''id''"] absent_or_str [of d "''name''"]
      absent_or_str [of d "''color''"]
    unfolding partial_GroupData_def by (simp only: json.case) blast
  from p JDict obtain ps where ps: "Position_from_dict (dict_get d ''position'' (JDict [])) = Inr ps"
    using absent_or_Position [of d "''position''"]
    unfolding partial_GroupData_def by (simp only: json.case) blast
  from p JDict obtain w ht where wh:
    "as_float (dict_get d ''width'' (JFloat 300)) = Inr w"
    "as_float (dict_get d ''height'' (JFloat 200)) = Inr ht"
    using absent_or_num [of d "''width''"] absent_or_num [of d "''height''"]
    unfolding partial_GroupData_def by (simp only: json.case) blast
  from p JDict obtain ids where ids: "copy_str_list (dict_get d ''node_ids'' (JList [])) = Inr ids"
    using absent_or_str_list [of d "''node_ids''"]
    unfolding partial_GroupData_def by (simp only: json.case) blast
  from s ps wh ids JDict show ?thesis by (simp add: GroupData_from_dict_def Let_def)
qed (simp_all add: partial_GroupData_def)

lemma ProjectData_total: "partial_ProjectData v \<Longrightarrow> \<exists>r. ProjectData_from_dict v g = Inr r"
proof (cases v)
  case (JDict d)
  assume p: "partial_ProjectData v"
  from p JDict obtain raw_tags where t: "py_iter (dict_get d ''global_tags'' (JList [])) = Inr raw_tags"
    using absent_or_list [of "\<lambda>t. True" d "''global_tags''"]
    unfolding partial_ProjectData_def by (simp only: json.case) blast
  from p JDict obtain raw_nodes where n: "py_iter (dict_get d ''nodes'' (JList [])) = Inr raw_nodes"
    "list_all partial_NodeData raw_nodes"
    using absent_or_list [of partial_NodeData d "''nodes''"]
    unfolding partial_ProjectData_def by (simp only: json.case) blast
  from p JDict obtain raw_edges where e: "py_iter (dict_get d ''edges'' (JList [])) = Inr raw_edges"
    "list_all partial_EdgeData raw_edges"
    using absent_or_list [of partial_EdgeData d "''edges''"]
    unfolding partial_ProjectData_def by (simp only: json.case) blast
  from p JDict obtain raw_groups where gr: "py_iter (dict_get d ''groups'' (JList [])) = Inr raw_groups"
    "list_all partial_GroupData raw_groups"
    using absent_or_list [of partial_GroupData d "''groups''"]
    unfolding partial_ProjectData_def by (simp only: json.case) blast
  obtain ns where ns: "from_dict_list NodeData_from_dict raw_nodes g = Inr ns"
    using from_dict_list_total [of partial_NodeData NodeData_from_dict raw_nodes] NodeData_total n(2)
    by blast
  obtain es where es: "from_dict_list EdgeData_from_dict raw_edges (snd ns) = Inr es"
    using from_dict_list_total [of partial_EdgeData EdgeData_from_dict raw_edges] EdgeData_total e(2)
    by blast
  obtain gs where gs: "from_dict_list GroupData_from_dict raw_groups (snd es) = Inr gs"
    using from_dict_list_total [of partial_GroupData GroupData_from_dict raw_groups] GroupData_total gr(2)
    by blast
  from p JDict obtain pin where pin: "as_bool (dict_get d ''pipeline_initialized'' (JBool False)) = Inr pin"
    using absent_or_bool [of d "''pipeline_initialized''"]
    unfolding partial_ProjectData_def by (simp only: json.case) blast
  from p JDict obtain ds pc rc where s:
    "as_str (dict_get d ''description'' (JStr [])) = Inr ds"
    "as_str (dict_get d ''pipeline_edge_color'' (JStr ''#607D8B'')) = Inr pc"
    "as_str (dict_get d ''reference_edge_color'' (JStr ''#4CAF50'')) = Inr rc"
    using absent_or_str [of d "''description''"] absent_or_str [of d "''pipeline_edge_color''"]
      absent_or_str [of d "''reference_edge_color''"]
    unfolding partial_ProjectData_def by (simp only: json.case) blast
  from p JDict obtain td where td: "as_dict_list (dict_get d ''todos'' (JList [])) = Inr td"
    using absent_or_dict_list [of d "''todos''"]
    unfolding partial_ProjectData_def by (simp only: json.case) blast
  from p JDict obtain dl where dl: "as_int_list (dict_get d ''dock_layout'' (JList [])) = Inr dl"
    using absent_or_int_list [of d "''dock_layout''"]
    unfolding partial_ProjectData_def by (simp only: json.case) blast
  from p JDict obtain mc where mc: "as_dict (dict_get d ''module_colors'' (JDict default_module_colors)) = Inr mc"
    using absent_or_dict [of d "''module_colors''"]
    unfolding partial_ProjectData_def by (simp only: json.case) blast
  from t n e gr ns es gs pin s td dl mc JDict show ?thesis
    by (simp add: ProjectData_from_dict_def)
qed (simp_all add: partial_ProjectData_def)


lemma tags_are_migrated:
  assumes "map_of d ''global_tags'' = Some (JList ts)"
    and "ProjectData_from_dict (JDict d) g = Inr (pd, g1)"
  shows "global_tags pd =
           map (\<lambda>t. case t of JStr s \<Rightarrow> JDict [(''name'', JStr s), (''color'', JNull)] | _ \<Rightarrow> t) ts"
proof -
  have m: "migrate_tag = (\<lambda>t. case t of JStr s \<Rightarrow> JDict [(''name'', JStr s), (''color'', JNull)] | _ \<Rightarrow> t)"
    by (rule ext) (simp add: migrate_tag_def)
  have "py_iter (dict_get d ''global_tags'' (JList [])) = Inr ts"
    using assms(1) by (simp add: dict_get_def py_iter_def)
  with assms(2) show ?thesis
    unfolding m [symmetric]
    by (auto simp: ProjectData_from_dict_def try_bind_def split: sum.splits)
qed

lemma legacy_only_tags:
  "ProjectData_from_dict (JDict [(''global_tags'', JList (map JStr names))]) g =
     Inr (ProjectData_new\<lparr>global_tags :=
            map (\<lambda>s. JDict [(''name'', JStr s), (''color'', JNull)]) names\<rparr>, g)"
  by (simp add: ProjectData_from_dict_def dict_get_def py_iter_def ProjectData_new_def
      as_dict_list_def as_int_list_def migrate_tag_def comp_def)

text \<open>
  C8. A project document whose \<^verbatim>\<open>global_tags\<close> is a list of strings loads, and every
  string \<open>s\<close> has become the record with name \<open>s\<close> and colour \<^verbatim>\<open>null\<close>, in the order of
  the document. In any document that loads, the tags are those of the document in their
  order, each string replaced by such a record and every other entry kept as it is.
\<close>

theorem legacy_tags_are_migrated:
  "ProjectData_from_dict (JDict [(''global_tags'', JList (map JStr names))]) g =
     Inr (ProjectData_new\<lparr>global_tags :=
            map (\<lambda>s. JDict [(''name'', JStr s), (''color'', JNull)]) names\<rparr>, g) \<and>
   (map_of d ''global_tags'' = Some (JList ts) \<and>
    ProjectData_from_dict (JDict d) g = Inr (pd, g1) \<longrightarrow>
      global_tags pd =
        map (\<lambda>t. case t of JStr s \<Rightarrow> JDict [(''name'', JStr s), (''color'', JNull)] | _ \<Rightarrow> t) ts)"
  using legacy_only_tags tags_are_migrated by blast

lemma legacy_document_loads:
  "ProjectData_from_dict (JDict legacy_document) g =
     Inr (ProjectData_new\<lparr>description := ''old'',
            global_tags := [JDict [(''name'', JStr ''a''), (''color'', JNull)],
                            JDict [(''name'', JStr ''c''), (''color'', JStr ''#fff'')],
                            JDict [(''name'', JStr ''b''), (''color'', JNull)]]\<rparr>, g)"
  by (simp add: ProjectData_from_dict_def dict_get_def py_iter_def ProjectData_new_def
      as_dict_list_def as_int_list_def migrate_tag_def legacy_document_def)

theorem legacy_tags_are_migrated_witness:
  "ProjectData_from_dict (JDict [(''global_tags'', JList [JStr ''a'', JStr ''b''])]) (\<lambda>n. ''uuid'') =
     Inr (ProjectData_new\<lparr>global_tags :=
            [JDict [(''name'', JStr ''a''), (''color'', JNull)],
             JDict [(''name'', JStr ''b''), (''color'', JNull)]]\<rparr>, \<lambda>n. ''uuid'') \<and>
   map_of legacy_document ''global_tags'' =
     Some (JList [JStr ''a'', JDict [(''name'', JStr ''c''), (''color'', JStr ''#fff'')], JStr ''b'']) \<and>
   (\<exists>pd g1. ProjectData_from_dict (JDict legacy_document) (\<lambda>n. ''uuid'') = Inr (pd, g1) \<and>
      global_tags pd =
        [JDict [(''name'', JStr ''a''), (''color'', JNull)],
         JDict [(''name'', JStr ''c''), (''color'', JStr ''#fff'')],
         JDict [(''name'', JStr ''b''), (''color'', JNull)]])"
proof -
  have 1: "map_of legacy_document ''global_tags'' =
     Some (JList [JStr ''a'', JDict [(''name'', JStr ''c''), (''color'', JStr ''#fff'')], JStr ''b''])"
    by (simp add: legacy_document_def)
  show ?thesis
    using legacy_tags_are_migrated [of "[''a'', ''b'']" "\<lambda>n. ''uuid''" legacy_document _ _
        "\<lambda>n. ''uuid''"]
      legacy_tags_are_migrated [of "[]" "\<lambda>n. ''uuid''" legacy_document
        "[JStr ''a'', JDict [(''name'', JStr ''c''), (''color'', JStr ''#fff'')], JStr ''b'']" _
        "\<lambda>n. ''uuid''"]
      1 legacy_document_loads [of "\<lambda>n. ''uuid''"]
    by simp
qed

text \<open>
  C7. For each of the seven entity types, \<^verbatim>\<open>from_dict\<close> of \<^verbatim>\<open>to_dict\<close> gives the entity
  back (for a project, one whose \<^verbatim>\<open>global_tags\<close> are dictionaries, as its annotation
  says); \<^verbatim>\<open>from_dict\<close> returns an entity for every partial document; and it treats a
  document like the same document completed with the default of every field that is
  missing.
\<close>

theorem entities_roundtrip:
  "Position_from_dict (Position_to_dict p) = Inr p \<and>
   Snippet_from_dict (Snippet_to_dict sn) g = Inr (sn, snd (generate_uuid g)) \<and>
   NodeMetadata_from_dict (NodeMetadata_to_dict md) = Inr md \<and>
   (\<exists>g1. NodeData_from_dict (NodeData_to_dict n) g = Inr (n, g1)) \<and>
   EdgeData_from_dict (EdgeData_to_dict e) g = Inr (e, snd (generate_uuid g)) \<and>
   GroupData_from_dict (GroupData_to_dict gd) g = Inr (gd, snd (generate_uuid g)) \<and>
   (list_all is_dict (global_tags pd) \<longrightarrow>
      (\<exists>g1. ProjectData_from_dict (ProjectData_to_dict pd) g = Inr (pd, g1))) \<and>
   (partial_Position v \<longrightarrow> (\<exists>r. Position_from_dict v = Inr r)) \<and>
   (partial_Snippet v \<longrightarrow> (\<exists>r. Snippet_from_dict v g = Inr r)) \<and>
   (partial_NodeMetadata v \<longrightarrow> (\<exists>r. NodeMetadata_from_dict v = Inr r)) \<and>
   (partial_NodeData v \<longrightarrow> (\<exists>r. NodeData_from_dict v g = Inr r)) \<and>
   (partial_EdgeData v \<longrightarrow> (\<exists>r. EdgeData_from_dict v g = Inr r)) \<and>
   (partial_GroupData v \<longrightarrow> (\<exists>r. GroupData_from_dict v g = Inr r)) \<and>
   (partial_ProjectData v \<longrightarrow> (\<exists>r. ProjectData_from_dict v g = Inr r)) \<and>
   Position_from_dict (JDict d) = Position_from_dict (JDict (complete d Position_defaults)) \<and>
   Snippet_from_dict (JDict d) g = Snippet_from_dict (JDict (complete d (Snippet_defaults g))) g \<and>
   NodeMetadata_from_dict (JDict d) =
     NodeMetadata_from_dict (JDict (complete d NodeMetadata_defaults)) \<and>
   NodeData_from_dict (JDict d) g = NodeData_from_dict (JDict (complete d (NodeData_defaults g))) g \<and>
   EdgeData_from_dict (JDict d) g = EdgeData_from_dict (JDict (complete d (EdgeData_defaults g))) g \<and>
   GroupData_from_dict (JDict d) g =
     GroupData_from_dict (JDict (complete d (GroupData_defaults g))) g \<and>
   ProjectData_from_dict (JDict d) g =
     ProjectData_from_dict (JDict (complete d ProjectData_defaults)) g"
  using Position_roundtrip [of p] Snippet_roundtrip [of sn g] NodeMetadata_roundtrip [of md]
    NodeData_roundtrip [of n g] EdgeData_roundtrip [of e g] GroupData_roundtrip [of gd g]
    ProjectData_roundtrip [of pd g]
    Position_total [of v] Snippet_total [of v g] NodeMetadata_total [of v] NodeData_total [of v g]
    EdgeData_total [of v g] GroupData_total [of v g] ProjectData_total [of v g]
    Position_completion [of d] Snippet_completion [of d g] NodeMetadata_completion [of d]
    NodeData_completion [of d g] EdgeData_completion [of d g] GroupData_completion [of d g]
    ProjectData_completion [of d g]
  by (intro conjI impI) simp_all

lemma empty_documents:
  "Position_from_dict (JDict []) = Inr \<lparr>pos_x = 0, pos_y = 0\<rparr>"
  "Snippet_from_dict (JDict []) (\<lambda>n. ''uuid'') =
     Inr (\<lparr>snippet_id = ''uuid'', snippet_type = ''text'', content = [], source_label = []\<rparr>,
          \<lambda>n. ''uuid'')"
  "NodeData_from_dict (JDict []) (\<lambda>n. ''uuid'') = Inr (plain_node ''uuid'', \<lambda>n. ''uuid'')"
  "EdgeData_from_dict (JDict []) (\<lambda>n. ''uuid'') =
     Inr (\<lparr>edge_id = ''uuid'', source_id = [], target_id = []\<rparr>, \<lambda>n. ''uuid'')"
  "GroupData_from_dict (JDict []) (\<lambda>n. ''uuid'') =
     Inr (\<lparr>group_id = ''uuid'', group_name = ''Group'', group_position = \<lparr>pos_x = 0, pos_y = 0\<rparr>,
           width = 300, height = 200, color = ''#78909C'', node_ids = []\<rparr>, \<lambda>n. ''uuid'')"
  "ProjectData_from_dict (JDict []) (\<lambda>n. ''uuid'') = Inr (ProjectData_new, \<lambda>n. ''uuid'')"
  by (simp_all add: Position_from_dict_def Snippet_from_dict_def NodeData_from_dict_def
      EdgeData_from_dict_def GroupData_from_dict_def ProjectData_from_dict_def
      NodeMetadata_from_dict_def dict_get_def generate_uuid_def Let_def plain_node_def
      copy_str_list_def py_iter_def ProjectData_new_def as_dict_list_def as_int_list_def)

lemma empty_is_partial:
  "partial_Position (JDict [])" "partial_Snippet (JDict [])" "partial_NodeMetadata (JDict [])"
  "partial_NodeData (JDict [])" "partial_EdgeData (JDict [])" "partial_GroupData (JDict [])"
  "partial_ProjectData (JDict [])"
  by (simp_all add: partial_Position_def partial_Snippet_def partial_NodeMetadata_def
      partial_NodeData_def partial_EdgeData_def partial_GroupData_def partial_ProjectData_def
      absent_or_def)

lemma partial_node_loads:
  "partial_NodeData partial_node_document"
  "NodeData_from_dict partial_node_document (\<lambda>n. ''uuid'') =
     Inr ((plain_node ''n1'')\<lparr>position := \<lparr>pos_x = 3, pos_y = 0\<rparr>\<rparr>, \<lambda>n. ''uuid'')"
  by (simp_all add: partial_node_document_def partial_NodeData_def absent_or_def is_str_def
      partial_Position_def is_num_def NodeData_from_dict_def NodeMetadata_from_dict_def
      Position_from_dict_def dict_get_def generate_uuid_def Let_def plain_node_def
      copy_str_list_def py_iter_def)

theorem entities_roundtrip_witness:
  "list_all is_dict (global_tags tagged_project) \<and>
   (\<exists>g1. ProjectData_from_dict (ProjectData_to_dict tagged_project) (\<lambda>n. ''uuid'') =
      Inr (tagged_project, g1)) \<and>
   partial_Position (JDict []) \<and> partial_Snippet (JDict []) \<and> partial_NodeMetadata (JDict []) \<and>
   partial_NodeData (JDict []) \<and> partial_EdgeData (JDict []) \<and> partial_GroupData (JDict []) \<and>
   partial_ProjectData (JDict []) \<and>
   Position_from_dict (JDict []) = Inr \<lparr>pos_x = 0, pos_y = 0\<rparr> \<and>
   (\<exists>r. NodeMetadata_from_dict (JDict []) = Inr r) \<and>
   NodeData_from_dict (JDict []) (\<lambda>n. ''uuid'') = Inr (plain_node ''uuid'', \<lambda>n. ''uuid'') \<and>
   ProjectData_from_dict (JDict []) (\<lambda>n. ''uuid'') = Inr (ProjectData_new, \<lambda>n. ''uuid'') \<and>
   partial_NodeData partial_node_document \<and>
   NodeData_from_dict partial_node_document (\<lambda>n. ''uuid'') =
     Inr ((plain_node ''n1'')\<lparr>position := \<lparr>pos_x = 3, pos_y = 0\<rparr>\<rparr>, \<lambda>n. ''uuid'')"
proof -
  have t: "list_all is_dict (global_tags tagged_project)"
    by (simp add: tagged_project_def is_dict_def)
  note i = entities_roundtrip [of _ _ "\<lambda>n. ''uuid''" _ _ _ _ tagged_project "JDict []" "[]"]
  have 1: "\<exists>g1. ProjectData_from_dict (ProjectData_to_dict tagged_project) (\<lambda>n. ''uuid'') =
      Inr (tagged_project, g1)"
    using i t by blast
  have 2: "\<exists>r. NodeMetadata_from_dict (JDict []) = Inr r"
    using i empty_is_partial by blast
  show ?thesis
    using t 1 2 empty_is_partial empty_documents partial_node_loads by blast
qed


section \<open>Loading a history file\<close>


lemma dropped_entry_None: "dropped_entry h cx item \<Longrightarrow> deserialize_command h cx item = Inr None"
  by (auto simp: dropped_entry_def deserialize_command_def py_get_def hashable_def
      split: json.splits option.splits sum.splits)

lemma loads_as_Some: "loads_as h cx item c \<Longrightarrow> deserialize_command h cx item = Inr (Some c)"
  by (auto simp: loads_as_def deserialize_command_def py_get_def hashable_def
      split: json.splits option.splits sum.splits)

lemma entry_result_command:
  "entry_result h cx item r \<Longrightarrow> deserialize_command h cx item = Inr r"
  by (cases r) (simp_all add: entry_result_def dropped_entry_None loads_as_Some)

lemma deserialize_stack_entries:
  "list_all2 (entry_result h cx) items rs \<Longrightarrow> deserialize_stack h cx items = Inr (kept rs)"
proof (induction items arbitrary: rs)
  case Nil
  then show ?case by (simp add: kept_def)
next
  case (Cons item items)
  from Cons.prems obtain r rs' where rs: "rs = r # rs'" and r: "entry_result h cx item r"
    and rest: "list_all2 (entry_result h cx) items rs'"
    by (auto simp: list_all2_Cons1)
  have "deserialize_stack h cx items = Inr (kept rs')" using rest by (rule Cons.IH)
  then show ?case
    using entry_result_command [OF r] by (cases r) (simp_all add: rs kept_def)
qed

lemma load_stacks_entries:
  assumes "dict_get d ''undo_stack'' (JList []) = JList us"
    and "dict_get d ''redo_stack'' (JList []) = JList rs"
    and "list_all2 (entry_result h cx) us urs" and "list_all2 (entry_result h cx) rs rrs"
  shows "load_stacks h cx (JDict d) = Inr (kept urs, kept rrs)"
  using assms
  by (simp add: load_stacks_def py_get_def py_iter_def deserialize_stack_entries)

lemma raising_entry_raises: "raising_entry item \<Longrightarrow> isl (deserialize_command h cx item)"
  by (auto simp: raising_entry_def deserialize_command_def py_get_def split: json.splits)

lemma deserialize_stack_raises:
  "bad \<in> set items \<Longrightarrow> isl (deserialize_command h cx bad) \<Longrightarrow>
   isl (deserialize_stack h cx items)"
proof (induction items)
  case Nil
  then show ?case by simp
next
  case (Cons item items)
  then show ?case
    by (cases "deserialize_command h cx item"; cases "deserialize_stack h cx items") auto
qed

lemma load_stacks_raises:
  assumes "dict_get d ''undo_stack'' (JList []) = JList us"
    and "dict_get d ''redo_stack'' (JList []) = JList rs"
    and "bad \<in> set (us @ rs)" and "raising_entry bad"
  shows "isl (load_stacks h cx (JDict d))"
proof -
  have "isl (deserialize_stack h cx us) \<or> isl (deserialize_stack h cx rs)"
    using assms(3) deserialize_stack_raises [OF _ raising_entry_raises [OF assms(4)], of _ h cx]
    by auto
  then show ?thesis
    using assms(1,2)
    by (cases "deserialize_stack h cx us"; cases "deserialize_stack h cx rs")
       (simp_all add: load_stacks_def py_get_def py_iter_def)
qed

text \<open>
  C6. In a history file whose stacks are lists, an entry that is a JSON object and whose
  kind tag is a string that the registry does not have (or is missing, \<^verbatim>\<open>null\<close>, a number or
  a boolean), and an entry whose \<^verbatim>\<open>from_dict\<close> raises, is answered with \<^verbatim>\<open>None\<close> and left
  out; when every entry is of this kind or well formed, the manager gets the commands of
  the well-formed entries, in the order of the file, on both stacks. An entry that is no
  JSON object, or whose kind tag is a list or an object, makes \<^verbatim>\<open>_deserialize_command\<close>
  itself raise: \<^verbatim>\<open>load_from_file\<close> catches the exception and clears both stacks.
  \<^verbatim>\<open>load_from_file\<close> returns a manager on every file.
\<close>

theorem unknown_entries_are_dropped:
  "(dropped_entry h cx item \<longrightarrow> deserialize_command h cx item = Inr None) \<and>
   (loads_as h cx item c \<longrightarrow> deserialize_command h cx item = Inr (Some c)) \<and>
   (list_all2 (entry_result h cx) items results \<longrightarrow>
      deserialize_stack h cx items = Inr (kept results)) \<and>
   (read_history h s = Document (JDict d) \<and>
    dict_get d ''undo_stack'' (JList []) = JList us \<and>
    dict_get d ''redo_stack'' (JList []) = JList rs \<and>
    list_all2 (entry_result h s) us urs \<and> list_all2 (entry_result h s) rs rrs \<longrightarrow>
      load_from_file h (m, s) = m\<lparr>undo_stack := kept urs, redo_stack := kept rrs\<rparr>) \<and>
   (read_history h s = Document (JDict d) \<and>
    dict_get d ''undo_stack'' (JList []) = JList us \<and>
    dict_get d ''redo_stack'' (JList []) = JList rs \<and>
    bad \<in> set (us @ rs) \<and> raising_entry bad \<longrightarrow>
      load_from_file h (m, s) = clear m)"
proof -
  have "load_from_file h (m, s) = clear m"
    if "read_history h s = Document (JDict d)"
      and "dict_get d ''undo_stack'' (JList []) = JList us"
      and "dict_get d ''redo_stack'' (JList []) = JList rs"
      and "bad \<in> set (us @ rs)" and "raising_entry bad"
    using load_stacks_raises [OF that(2-5), of h s] that(1)
    by (cases "load_stacks h s (JDict d)") (simp_all add: load_from_file_def)
  then show ?thesis
    using dropped_entry_None [of h cx item] loads_as_Some [of h cx item c]
      deserialize_stack_entries [of h cx items results]
      load_stacks_entries [of d us rs h s urs rrs]
    by (auto simp: load_from_file_def)
qed


lemma registry_simps:
  "map_of (command_classes app_hooks) ''TodoAdd'' = Some TodoAddCommand_from_dict"
  "map_of (command_classes app_hooks) ''TodoToggle'' = Some TodoToggleCommand_from_dict"
  "map_of (command_classes app_hooks) ''TagAdd'' = Some TagAddCommand_from_dict"
  "map_of (command_classes app_hooks) ''FutureCommand'' = None"
  by (simp_all add: app_hooks_def command_classes_table_def)

lemma mixed_undo_entries:
  "list_all2 (entry_result app_hooks cx)
     [JDict [(''type'', JStr ''TodoAdd''), (''todo_text'', JStr ''t''), (''todo_index'', JInt 0)],
      JDict [(''type'', JStr ''FutureCommand''), (''payload'', JInt 1)],
      JDict [(''type'', JStr ''TodoToggle'')],
      JDict [(''type'', JStr ''TagAdd''), (''tag_name'', JStr ''ml'')]]
     [Some (TodoAddCommand ''t'' 0), None, None, Some (TagAddCommand ''ml'' (- 1))]"
  by (simp add: entry_result_def dropped_entry_def loads_as_def dict_get_def registry_simps
      TodoAddCommand_from_dict_def TodoToggleCommand_from_dict_def TagAddCommand_from_dict_def
      field_def py_item_def py_get_def dict_item_def try_bind_def as_str_def as_int_def)

lemma mixed_redo_entries:
  "list_all2 (entry_result app_hooks cx)
     [JDict [(''type'', JStr ''TodoToggle''), (''todo_index'', JInt 0), (''new_state'', JBool True)]]
     [Some (TodoToggleCommand 0 True)]"
  by (simp add: entry_result_def loads_as_def dict_get_def registry_simps
      TodoToggleCommand_from_dict_def
      field_def py_item_def dict_item_def try_bind_def as_int_def as_bool_def)

theorem unknown_entries_are_dropped_witness:
  "dropped_entry app_hooks blank_ctx (JDict [(''type'', JStr ''TodoToggle'')]) \<and>
   deserialize_command app_hooks blank_ctx (JDict [(''type'', JStr ''TodoToggle'')]) = Inr None \<and>
   load_from_file app_hooks (init_manager, blank_ctx\<lparr>history := Document mixed_history\<rparr>) =
     init_manager\<lparr>undo_stack := [TodoAddCommand ''t'' 0, TagAddCommand ''ml'' (- 1)],
                   redo_stack := [TodoToggleCommand 0 True]\<rparr> \<and>
   raising_entry (JDict [(''type'', JList [JStr ''x''])]) \<and>
   load_from_file app_hooks (init_manager, blank_ctx\<lparr>history := Document unhashable_history\<rparr>) =
     clear init_manager"
proof -
  let ?s = "blank_ctx\<lparr>history := Document mixed_history\<rparr>"
  let ?us = "[JDict [(''type'', JStr ''TodoAdd''), (''todo_text'', JStr ''t''), (''todo_index'', JInt 0)],
      JDict [(''type'', JStr ''FutureCommand''), (''payload'', JInt 1)],
      JDict [(''type'', JStr ''TodoToggle'')],
      JDict [(''type'', JStr ''TagAdd''), (''tag_name'', JStr ''ml'')]]"
  let ?rs = "[JDict [(''type'', JStr ''TodoToggle''), (''todo_index'', JInt 0), (''new_state'', JBool True)]]"
  let ?d = "[(''undo_stack'', JList ?us), (''redo_stack'', JList ?rs)]"
  let ?urs = "[Some (TodoAddCommand ''t'' 0), None, None, Some (TagAddCommand ''ml'' (- 1))]"
  let ?rrs = "[Some (TodoToggleCommand 0 True)]"
  note inst = unknown_entries_are_dropped [where h = app_hooks and cx = blank_ctx
      and item = "JDict [(''type'', JStr ''TodoToggle'')]" and c = "TodoToggleCommand 0 True"
      and items = ?us and results = ?urs and s = ?s and d = ?d and us = ?us and rs = ?rs
      and urs = ?urs and rrs = ?rrs and m = init_manager]
  have dropped: "dropped_entry app_hooks blank_ctx (JDict [(''type'', JStr ''TodoToggle'')])"
    by (simp add: dropped_entry_def dict_get_def registry_simps TodoToggleCommand_from_dict_def
        field_def py_item_def dict_item_def try_bind_def)
  have doc: "read_history app_hooks ?s = Document (JDict ?d)"
    by (simp add: app_hooks_def mixed_history_def)
  have stacks: "dict_get ?d ''undo_stack'' (JList []) = JList ?us"
    "dict_get ?d ''redo_stack'' (JList []) = JList ?rs"
    by (simp_all add: dict_get_def)
  have loaded: "load_from_file app_hooks (init_manager, ?s) =
      init_manager\<lparr>undo_stack := kept ?urs, redo_stack := kept ?rrs\<rparr>"
    using inst [THEN conjunct2, THEN conjunct2, THEN conjunct2, THEN conjunct1, rule_format]
      doc stacks mixed_undo_entries [of ?s] mixed_redo_entries [of ?s]
    by blast
  have none: "deserialize_command app_hooks blank_ctx (JDict [(''type'', JStr ''TodoToggle'')]) = Inr None"
    using inst [THEN conjunct1, rule_format, OF dropped] .
  let ?t = "blank_ctx\<lparr>history := Document unhashable_history\<rparr>"
  let ?bad = "JDict [(''type'', JList [JStr ''x''])]"
  let ?vs = "[JDict [(''type'', JStr ''TodoAdd''), (''todo_text'', JStr ''t''), (''todo_index'', JInt 0)],
      ?bad]"
  let ?e = "[(''undo_stack'', JList ?vs), (''redo_stack'', JList [])]"
  have raising: "raising_entry ?bad"
    by (simp add: raising_entry_def dict_get_def hashable_def)
  have doc2: "read_history app_hooks ?t = Document (JDict ?e)"
    by (simp add: app_hooks_def unhashable_history_def)
  have stacks2: "dict_get ?e ''undo_stack'' (JList []) = JList ?vs"
    "dict_get ?e ''redo_stack'' (JList []) = JList []"
    by (simp_all add: dict_get_def)
  have member: "?bad \<in> set (?vs @ [])" by simp
  have cleared: "load_from_file app_hooks (init_manager, ?t) = clear init_manager"
    using unknown_entries_are_dropped [where h = app_hooks and s = ?t and d = ?e and us = ?vs
        and rs = "[]" and bad = ?bad and m = init_manager,
        THEN conjunct2, THEN conjunct2, THEN conjunct2, THEN conjunct2, rule_format]
      doc2 stacks2 member raising
    by blast
  show ?thesis
    using dropped none raising cleared by (simp add: loaded kept_def)
qed

text \<open>
  An entry whose kind tag is a list is no key of any dictionary: the look-up in the registry
  raises \<^verbatim>\<open>TypeError\<close> outside the \<^verbatim>\<open>try\<close> of \<^verbatim>\<open>_deserialize_command\<close>, the handler of
  \<^verbatim>\<open>load_from_file\<close> clears the manager, and the well-formed command before it is lost.
\<close>

theorem unhashable_tag_discards_history:
  "deserialize_command app_hooks blank_ctx
     (JDict [(''type'', JStr ''TodoAdd''), (''todo_text'', JStr ''t''), (''todo_index'', JInt 0)]) =
     Inr (Some (TodoAddCommand ''t'' 0)) \<and>
   map_of (command_classes app_hooks) ''x'' = None \<and>
   deserialize_command app_hooks blank_ctx (JDict [(''type'', JList [JStr ''x''])]) = Inl TypeError \<and>
   undo_stack (load_from_file app_hooks
     (init_manager, blank_ctx\<lparr>history := Document unhashable_history\<rparr>)) = []"
proof -
  have bad: "deserialize_command app_hooks cx (JDict [(''type'', JList [JStr ''x''])]) = Inl TypeError"
    for cx
    by (simp add: deserialize_command_def py_get_def dict_get_def try_bind_def hashable_def)
  have "load_stacks app_hooks cx unhashable_history = Inl TypeError" for cx
    by (simp add: load_stacks_def unhashable_history_def py_get_def dict_get_def py_iter_def
        todo_add_entry bad)
  then have "load_from_file app_hooks (init_manager, blank_ctx\<lparr>history := Document unhashable_history\<rparr>) =
      clear init_manager"
    by (simp add: load_from_file_def app_hooks_def Let_def)
  then show ?thesis
    using bad [of blank_ctx] todo_add_entry [of blank_ctx]
    by (simp add: clear_def app_hooks_def command_classes_table_def)
qed



section \<open>Properties of the commands\<close>

subsection \<open>Moving a group\<close>

lemma place_node_absorb [simp]: "place_node a b (place_node a' b' n) = place_node a b n"
  by (simp add: place_node_def)

lemma place_group_absorb [simp]: "place_group a b (place_group a' b' gi) = place_group a b gi"
  by (simp add: place_group_def)

text \<open>What the loop of \<open>_move_to\<close> leaves of an item: placed by the last entry of
  \<open>child_positions\<close> for its identifier, or untouched.\<close>

lemma update_node_nodes:
  "scene_nodes (update_node k f sc) j =
     (if j = k then map_option f (scene_nodes sc j) else scene_nodes sc j)"
  by (auto simp: update_node_def split: option.splits)




lemma move_children_nodes:
  "scene_nodes (move_children dx dy cps sc) k =
     map_option (\<lambda>n. case map_of (rev cps) k of
                        None \<Rightarrow> n
                      | Some p \<Rightarrow> place_node (fst p + dx) (snd p + dy) n)
       (scene_nodes sc k)"
proof (induction cps arbitrary: sc)
  case Nil
  then show ?case by (simp add: option.map_ident)
next
  case (Cons c cps)
  show ?case
    by (cases "scene_nodes sc k")
       (auto simp: Cons update_node_nodes map_of_append map_add_def split: option.splits)
qed

lemma move_children_node_dom:
  "(scene_nodes (move_children dx dy cps sc) k = None) = (scene_nodes sc k = None)"
  by (simp add: move_children_nodes)





lemma dict_set_keys: "fst ` set (dict_set k v d) = insert k (fst ` set d)"
  by (induction d) auto

lemma dict_set_distinct: "distinct (map fst d) \<Longrightarrow> distinct (map fst (dict_set k v d))"
  by (induction d) (auto simp: dict_set_keys)


lemma snapshot_distinct:
  "distinct (map fst acc) \<Longrightarrow> distinct (map fst (snapshot_children dx dy ids sc acc))"
  by (induction ids arbitrary: acc) (auto simp: dict_set_distinct split: option.splits)


lemma map_of_rev_entry: "map_of (rev cps) k = Some p \<Longrightarrow> (k, p) \<in> set cps"
  using map_of_SomeD by fastforce







lemma lookup_groups_update [simp]: "lookup_node (sc\<lparr>scene_groups := G\<rparr>) k = lookup_node sc k"
  by (simp add: lookup_node_def split: option.splits)



lemma tuple_pos_json [simp]: "tuple_pos (pos_json p) = Inr p"
  by (simp add: tuple_pos_def as_pos_def pos_json_def py_iter_def)













section \<open>Execute and then undo\<close>

subsection \<open>Index-addressed lists\<close>
















subsection \<open>Commands on the dock\<close>














subsection \<open>Commands on the scene\<close>








subsection \<open>Colour commands\<close>

lemma is_project_open_data [simp]:
  "is_project_open (pm\<lparr>project_data := x\<rparr>) = is_project_open pm"
  by (simp add: is_project_open_def)







subsection \<open>Adding and removing edges and groups\<close>








lemma restore_group_fixed:
  "restore_group gd sc = sc \<Longrightarrow> scene_groups sc (group_id gd) \<noteq> None"
proof -
  assume "restore_group gd sc = sc"
  then have "scene_groups (restore_group gd sc) (group_id gd) = scene_groups sc (group_id gd)"
    by simp
  then show ?thesis unfolding restore_group_def by (simp del: not_None_eq) (metis option.distinct(1))
qed






subsection \<open>Adding and removing nodes\<close>








subsection \<open>Changing the group of a node\<close>





lemma lookup_update_node: "lookup_node (update_node k f sc) k = map_option f (lookup_node sc k)"
  by (auto simp: update_node_def lookup_node_def split: option.splits)





subsection \<open>The inverse law\<close>




end

